theory Spec2Isabelle
  imports Main
begin

section \<open>JavaScript strings\<close>

text \<open>
  A JavaScript string is a sequence of UTF-16 code units. The model is of the strings whose
  code units are below 256, the Latin-1 range: a \<^typ>\<open>char\<close> is the code unit of that number.
  On these strings \<open>toLowerCase\<close> maps \<open>A\<close> to \<open>Z\<close> and the letters \<open>U+00C0\<close> to \<open>U+00DE\<close>
  (but for the multiplication sign \<open>U+00D7\<close>) to the code unit 32 above and leaves every
  other code unit as it is, and the regular expression class \<open>\s\<close> holds tab, line feed,
  vertical tab, form feed, carriage return, the space and the no-break space \<open>U+00A0\<close>.
\<close>

definition upperLetters :: string where
  "upperLetters = ''ABCDEFGHIJKLMNOPQRSTUVWXYZ'' @
     [CHR 0xC0, CHR 0xC1, CHR 0xC2, CHR 0xC3, CHR 0xC4, CHR 0xC5, CHR 0xC6, CHR 0xC7,
      CHR 0xC8, CHR 0xC9, CHR 0xCA, CHR 0xCB, CHR 0xCC, CHR 0xCD, CHR 0xCE, CHR 0xCF,
      CHR 0xD0, CHR 0xD1, CHR 0xD2, CHR 0xD3, CHR 0xD4, CHR 0xD5, CHR 0xD6, CHR 0xD8,
      CHR 0xD9, CHR 0xDA, CHR 0xDB, CHR 0xDC, CHR 0xDD, CHR 0xDE]"

definition lowerLetters :: string where
  "lowerLetters = ''abcdefghijklmnopqrstuvwxyz'' @
     [CHR 0xE0, CHR 0xE1, CHR 0xE2, CHR 0xE3, CHR 0xE4, CHR 0xE5, CHR 0xE6, CHR 0xE7,
      CHR 0xE8, CHR 0xE9, CHR 0xEA, CHR 0xEB, CHR 0xEC, CHR 0xED, CHR 0xEE, CHR 0xEF,
      CHR 0xF0, CHR 0xF1, CHR 0xF2, CHR 0xF3, CHR 0xF4, CHR 0xF5, CHR 0xF6, CHR 0xF8,
      CHR 0xF9, CHR 0xFA, CHR 0xFB, CHR 0xFC, CHR 0xFD, CHR 0xFE]"

definition lowerChar :: "char \<Rightarrow> char" where
  "lowerChar c = (case map_of (zip upperLetters lowerLetters) c of Some l \<Rightarrow> l | None \<Rightarrow> c)"

definition toLowerCase :: "string \<Rightarrow> string" where
  \<comment> \<open>\<open>String.prototype.toLowerCase\<close>\<close>
  "toLowerCase s = map lowerChar s"

definition isSpace :: "char \<Rightarrow> bool" where
  \<comment> \<open>the members of the regular expression class \<open>\s\<close>: tab, LF, VT, FF, CR, space and
      the no-break space\<close>
  "isSpace c = (c \<in> set [CHR 0x09, CHR 0x0A, CHR 0x0B, CHR 0x0C, CHR 0x0D, CHR '' '', CHR 0xA0])"

definition dq :: string where
  \<comment> \<open>the double quote character\<close>
  "dq = [CHR 0x22]"

fun join :: "string \<Rightarrow> string list \<Rightarrow> string" where
  \<comment> \<open>\<open>Array.prototype.join\<close>\<close>
  "join sep [] = []"
| "join sep [x] = x"
| "join sep (x # y # ys) = x @ sep @ join sep (y # ys)"

fun isPrefixOf :: "string \<Rightarrow> string \<Rightarrow> bool" where
  "isPrefixOf [] ys = True"
| "isPrefixOf (x # xs) [] = False"
| "isPrefixOf (x # xs) (y # ys) = (x = y \<and> isPrefixOf xs ys)"

fun str_includes :: "string \<Rightarrow> string \<Rightarrow> bool" where
  \<comment> \<open>\<open>String.prototype.includes\<close>: \<open>str_includes s t\<close> is \<open>s.includes(t)\<close>\<close>
  "str_includes [] t = (t = [])"
| "str_includes (c # cs) t = (isPrefixOf t (c # cs) \<or> str_includes cs t)"

fun splitFrom :: "bool \<Rightarrow> string \<Rightarrow> string \<Rightarrow> string list" where
  \<comment> \<open>the scanner behind \<open>split(/\s+/)\<close>: \<open>skip\<close> says that the scanner is inside a run of
      whitespace, \<open>cur\<close> is the current piece, reversed\<close>
  "splitFrom skip cur [] = [rev cur]"
| "splitFrom skip cur (c # cs) =
     (if isSpace c then (if skip then splitFrom True cur cs else rev cur # splitFrom True [] cs)
      else splitFrom False (c # cur) cs)"

definition splitWs :: "string \<Rightarrow> string list" where
  \<comment> \<open>\<open>s.split(/\s+/)\<close>: leading or trailing whitespace gives an empty first or last piece\<close>
  "splitWs s = splitFrom False [] s"

definition digitChar :: "nat \<Rightarrow> char" where
  "digitChar d = ''0123456789'' ! d"

fun showNat :: "nat \<Rightarrow> string" where
  \<comment> \<open>the decimal numeral of a natural number, as a template literal prints a count or a
      bound; the numbers printed are the length of a list of matches and the bounds 1 and 1000\<close>
  "showNat n = (if n < 10 then [digitChar n] else showNat (n div 10) @ [digitChar (n mod 10)])"

declare showNat.simps [simp del]

section \<open>Tool payloads\<close>

text \<open>
  Every lookup handler returns \<open>{ content: [{ type: "text", text }] }\<close>; \<open>Content text\<close>
  is that object.
\<close>

datatype payload = Content (payloadText: string)

section \<open>The example catalog and its search (tools/examples/search-examples.ts)\<close>

record example =
  ex_id :: string
  ex_name :: string
  ex_description :: string
  ex_tags :: "string list"

definition mkExample :: "string \<Rightarrow> string \<Rightarrow> string \<Rightarrow> string list \<Rightarrow> example" where
  "mkExample i n d ts = \<lparr>ex_id = i, ex_name = n, ex_description = d, ex_tags = ts\<rparr>"

definition examples :: "example list" where
  "examples = [
     mkExample ''basic-flow'' ''Basic Flow''
       ''A simple React Flow setup with nodes, edges, and basic interactivity.''
       [''beginner'', ''setup'', ''nodes'', ''edges'', ''getting-started''],
     mkExample ''custom-node'' ''Custom Node''
       ''Creating a custom node component with handles and custom styling.''
       [''intermediate'', ''custom'', ''nodes'', ''handles'', ''styling''],
     mkExample ''custom-edge'' ''Custom Edge''
       ''Creating a custom edge with a button to delete the connection.''
       [''intermediate'', ''custom'', ''edges'', ''delete'', ''interactive''],
     mkExample ''drag-and-drop'' ''Drag and Drop''
       ''Adding nodes via drag and drop from a sidebar.''
       [''intermediate'', ''drag-drop'', ''add-nodes'', ''sidebar'', ''dnd''],
     mkExample ''sub-flows'' ''Sub Flows (Nested Nodes)''
       ''Creating nodes that contain other nodes using parent-child relationships.''
       [''advanced'', ''nested'', ''groups'', ''layout'', ''parent'', ''child''],
     mkExample ''validation'' ''Connection Validation''
       ''Validating connections before they are created.''
       [''intermediate'', ''validation'', ''connections'', ''isValidConnection''],
     mkExample ''save-restore'' ''Save and Restore''
       ''Saving flow state to JSON and restoring it.''
       [''intermediate'', ''persistence'', ''json'', ''localStorage'', ''save'', ''load''],
     mkExample ''resizable-node'' ''Resizable Node''
       ''Creating nodes that can be resized by users.''
       [''intermediate'', ''resize'', ''custom-node'', ''NodeResizer''],
     mkExample ''toolbar-node'' ''Node with Toolbar''
       ''Adding a toolbar that appears when a node is selected.''
       [''intermediate'', ''toolbar'', ''custom-node'', ''NodeToolbar'', ''selection''],
     mkExample ''layout-elk'' ''Auto Layout with ELK''
       ''Using ELK.js for automatic graph layout.''
       [''advanced'', ''layout'', ''elk'', ''auto-layout'', ''algorithm''],
     mkExample ''interactive-minimap'' ''Interactive MiniMap''
       ''Configuring MiniMap with panning and zooming capabilities.''
       [''beginner'', ''minimap'', ''navigation'', ''overview''],
     mkExample ''edge-types'' ''Built-in Edge Types''
       ''Using different built-in edge types: default, straight, step, smoothstep, simplebezier.''
       [''beginner'', ''edges'', ''types'', ''bezier'', ''step''],
     mkExample ''context-menu'' ''Context Menu''
       ''Adding right-click context menus to nodes and the canvas.''
       [''intermediate'', ''context-menu'', ''right-click'', ''menu''],
     mkExample ''touch-device'' ''Touch Device Support''
       ''Optimizing React Flow for touch devices and mobile.''
       [''intermediate'', ''touch'', ''mobile'', ''gestures''],
     mkExample ''undo-redo'' ''Undo/Redo''
       ''Implementing undo and redo functionality for flow changes.''
       [''advanced'', ''undo'', ''redo'', ''history'', ''state-management'']]"

definition searchableText :: "example \<Rightarrow> string" where
  "searchableText e =
     join '' '' ([toLowerCase (ex_name e), toLowerCase (ex_description e)]
                 @ map toLowerCase (ex_tags e))"

definition queryTerms :: "string \<Rightarrow> string list" where
  "queryTerms query = splitWs (toLowerCase query)"

definition exampleMatches :: "string \<Rightarrow> example \<Rightarrow> bool" where
  \<comment> \<open>the predicate of \<open>examples.filter\<close>\<close>
  "exampleMatches query e = list_all (\<lambda>t. str_includes (searchableText e) t) (queryTerms query)"

definition matchingExamples :: "string \<Rightarrow> example list" where
  "matchingExamples query = filter (exampleMatches query) examples"

definition renderMatch :: "example \<Rightarrow> string" where
  "renderMatch e =
     ''## '' @ ex_name e @ ''\<newline>'' @
     ''**ID:** `'' @ ex_id e @ ''`\<newline>'' @
     ''**Description:** '' @ ex_description e @ ''\<newline>'' @
     ''**Tags:** '' @ join '', '' (ex_tags e) @ ''\<newline>\<newline>''"

definition searchExamples :: "string \<Rightarrow> payload" where
  "searchExamples query =
     (let matches = matchingExamples query in
      if length matches = 0 then
        Content (''No examples found for '' @ dq @ query @ dq @ ''. Try searching for:\<newline>\<newline>'' @
          ''- **Concepts**: nodes, edges, custom, layout, drag-drop\<newline>'' @
          ''- **Features**: validation, resize, toolbar, minimap\<newline>'' @
          ''- **Levels**: beginner, intermediate, advanced\<newline>\<newline>'' @
          ''Or use `get_react_flow_example` with a specific example type.'')
      else
        Content (''# Search Results for '' @ dq @ query @ dq @ ''\<newline>\<newline>'' @
          ''Found '' @ showNat (length matches) @ '' example(s):\<newline>\<newline>'' @
          concat (map renderMatch matches) @
          ''---\<newline>\<newline>'' @
          ''Use `get_react_flow_example` with the example ID to get the full code.\<newline>''))"

section \<open>JavaScript values\<close>

text \<open>
  Request parameters are JSON values typed \<open>any\<close>. \<open>JUndefined\<close> is the value of an absent
  parameter object or of an absent member. The code observes two things of a number: whether
  it is falsy (\<open>0\<close>, \<open>-0\<close> or \<open>NaN\<close>) and what a template literal prints for it.
  \<open>JNum falsy shown\<close> is a number with these two observations; the theorems hold for
  every pair of them, also for the pairs that no number has.
\<close>

datatype json =
    JUndefined
  | JNull
  | JBool bool
  | JNum bool string
  | JStr string
  | JArr "json list"
  | JObj "(string \<times> json) list"

fun truthy :: "json \<Rightarrow> bool" where
  "truthy JUndefined = False"
| "truthy JNull = False"
| "truthy (JBool b) = b"
| "truthy (JNum falsy shown) = (\<not> falsy)"
| "truthy (JStr s) = (s \<noteq> [])"
| "truthy (JArr xs) = True"
| "truthy (JObj kvs) = True"

definition orEmptyObject :: "json \<Rightarrow> json" where
  \<comment> \<open>\<open>v || {}\<close>\<close>
  "orEmptyObject v = (if truthy v then v else JObj [])"

fun js_field :: "json \<Rightarrow> string \<Rightarrow> json" where
  \<comment> \<open>reading a member of a parameter value, as destructuring does; the members read below
      (\<open>name\<close>, \<open>arguments\<close>, \<open>componentName\<close>, \<open>category\<close>, \<open>query\<close>) are not members of
      any prototype, and the value read is never \<open>null\<close> or \<open>undefined\<close>\<close>
  "js_field (JObj kvs) k = (case map_of kvs k of Some v \<Rightarrow> v | None \<Rightarrow> JUndefined)"
| "js_field v k = JUndefined"

datatype error =
    Error string        \<comment> \<open>\<open>new Error(message)\<close>\<close>
  | TypeError string    \<comment> \<open>a \<open>TypeError\<close> raised by the JavaScript runtime\<close>
  | CircuitOpenError    \<comment> \<open>the rejection of the circuit breaker\<close>

fun js_toString :: "json \<Rightarrow> error + string" where
  \<comment> \<open>the string conversion of a template literal \<open>`${v}`\<close>; an object with a member
      \<open>toString\<close> of its own (which is not callable, coming from JSON) cannot be converted\<close>
  "js_toString JUndefined = Inr ''undefined''"
| "js_toString JNull = Inr ''null''"
| "js_toString (JBool b) = Inr (if b then ''true'' else ''false'')"
| "js_toString (JNum falsy shown) = Inr shown"
| "js_toString (JStr s) = Inr s"
| "js_toString (JObj kvs) =
     (if ''toString'' \<in> set (map fst kvs)
      then Inl (TypeError ''Cannot convert object to primitive value'')
      else Inr ''[object Object]'')"
| "js_toString (JArr xs) =
     (let parts = map (\<lambda>x. if x = JNull \<or> x = JUndefined then Inr [] else js_toString x) xs in
      case filter isl parts of
        Inl e # _ \<Rightarrow> Inl e
      | _ \<Rightarrow> Inr (join '','' (map projr parts)))"

section \<open>Property lookup on an object literal\<close>

text \<open>
  The tables of the server (\<open>methodSchemas\<close>, \<open>toolHandlers\<close>, \<open>components\<close>, ...) are object
  literals indexed by a string that comes from the request: \<open>table[key]\<close>. An object literal
  inherits from \<open>Object.prototype\<close>, so the lookup finds the table's own member if there is
  one, else the member of \<open>Object.prototype\<close> of that name if there is one, else it gives
  \<open>undefined\<close>. Every member of \<open>Object.prototype\<close> is truthy: eleven functions, and the
  accessor \<open>__proto__\<close>, which gives \<open>Object.prototype\<close> itself.
\<close>

definition objectPrototypeKeys :: "string list" where
  "objectPrototypeKeys =
     [''constructor'', ''__defineGetter__'', ''__defineSetter__'', ''hasOwnProperty'',
      ''__lookupGetter__'', ''__lookupSetter__'', ''isPrototypeOf'', ''propertyIsEnumerable'',
      ''toString'', ''valueOf'', ''__proto__'', ''toLocaleString'']"

datatype 'a property =
    Undefined           \<comment> \<open>no member of that name\<close>
  | Own 'a              \<comment> \<open>the table's own member\<close>
  | Inherited string    \<comment> \<open>the member of \<open>Object.prototype\<close> of that name\<close>

definition js_get :: "(string \<times> 'a) list \<Rightarrow> string \<Rightarrow> 'a property" where
  "js_get table key =
     (case map_of table key of
        Some v \<Rightarrow> Own v
      | None \<Rightarrow> if key \<in> set objectPrototypeKeys then Inherited key else Undefined)"

definition inheritedName :: "string \<Rightarrow> string" where
  \<comment> \<open>\<open>`${m.name}`\<close> for the inherited member \<open>m\<close>: \<open>Object.prototype.constructor\<close> is the
      function \<open>Object\<close>, the other functions are named as their keys, and \<open>Object.prototype\<close>
      has no member \<open>name\<close>\<close>
  "inheritedName key =
     (if key = ''constructor'' then ''Object''
      else if key = ''__proto__'' then ''undefined''
      else key)"

section \<open>Parameter validation (utils/validation.ts)\<close>

text \<open>
  The schemas are built with the library zod; its parser is modelled for the three kinds of
  member schema the table uses. \<open>ZString lo hi\<close> is \<open>z.string().min(lo).max(hi)\<close>.
\<close>

datatype zod_type = ZString nat nat | ZOptionalString | ZOptionalAny

definition stringSchema :: zod_type where
  "stringSchema = ZString 1 1000"

definition optionalStringSchema :: zod_type where
  "optionalStringSchema = ZOptionalString"

type_synonym zod_object = "(string \<times> zod_type) list"

definition methodSchemas :: "(string \<times> zod_object) list" where
  "methodSchemas = [
     (''get_react_flow_component'', [(''componentName'', stringSchema)]),
     (''list_react_flow_components'', [(''category'', optionalStringSchema)]),
     (''get_react_flow_hook'', [(''hookName'', stringSchema)]),
     (''list_react_flow_hooks'', [(''category'', optionalStringSchema)]),
     (''get_react_flow_type'', [(''typeName'', stringSchema)]),
     (''list_react_flow_types'', [(''category'', optionalStringSchema)]),
     (''get_react_flow_utility'', [(''utilityName'', stringSchema)]),
     (''list_react_flow_utilities'', []),
     (''get_react_flow_example'', [(''exampleType'', stringSchema)]),
     (''search_react_flow_examples'', [(''query'', stringSchema)]),
     (''get_react_flow_docs'', [(''topic'', stringSchema)]),
     (''list_resources'', []),
     (''list_resource_templates'', []),
     (''list_tools'', []),
     (''list_prompts'', []),
     (''read_resource'', [(''uri'', stringSchema)]),
     (''get_prompt'', [(''name'', stringSchema), (''arguments'', ZOptionalAny)]),
     (''call_tool'', [(''name'', stringSchema), (''arguments'', ZOptionalAny)])]"

fun parsedType :: "json \<Rightarrow> string" where
  "parsedType JUndefined = ''undefined''"
| "parsedType JNull = ''null''"
| "parsedType (JBool b) = ''boolean''"
| "parsedType (JNum falsy shown) = (if shown = ''NaN'' then ''nan'' else ''number'')"
| "parsedType (JStr s) = ''string''"
| "parsedType (JArr xs) = ''array''"
| "parsedType (JObj kvs) = ''object''"

definition invalidType :: "string \<Rightarrow> json \<Rightarrow> string" where
  \<comment> \<open>zod's message for a value of the wrong type\<close>
  "invalidType expected v =
     (if v = JUndefined then ''Required''
      else ''Expected '' @ expected @ '', received '' @ parsedType v)"

fun checkMember :: "zod_type \<Rightarrow> json \<Rightarrow> string list" where
  \<comment> \<open>the messages of the issues zod raises for one member\<close>
  "checkMember (ZString lo hi) (JStr s) =
     (if length s < lo then [''String must contain at least '' @ showNat lo @ '' character(s)''] else [])
     @ (if hi < length s then [''String must contain at most '' @ showNat hi @ '' character(s)''] else [])"
| "checkMember (ZString lo hi) v = [invalidType ''string'' v]"
| "checkMember ZOptionalString JUndefined = []"
| "checkMember ZOptionalString (JStr s) = []"
| "checkMember ZOptionalString v = [invalidType ''string'' v]"
| "checkMember ZOptionalAny v = []"

type_synonym zod_issue = "string list \<times> string"

definition memberIssues :: "zod_object \<Rightarrow> json \<Rightarrow> zod_issue list" where
  "memberIssues shape data =
     concat (map (\<lambda>(key, ty). map (\<lambda>msg. ([key], msg)) (checkMember ty (js_field data key))) shape)"

definition stripUnknown :: "zod_object \<Rightarrow> (string \<times> json) list \<Rightarrow> (string \<times> json) list" where
  \<comment> \<open>the parsed object: the members the schema names, in the schema's order, where the
      input has them; other members are dropped\<close>
  "stripUnknown shape kvs =
     List.map_filter (\<lambda>(key, ty). map_option (Pair key) (map_of kvs key)) shape"

fun zodParse :: "zod_object \<Rightarrow> json \<Rightarrow> zod_issue list + json" where
  \<comment> \<open>\<open>z.object(shape).parse(data)\<close>; \<open>Inl\<close> is the \<open>ZodError\<close> with its issues\<close>
  "zodParse shape (JObj kvs) =
     (let issues = memberIssues shape (JObj kvs) in
      if issues = [] then Inr (JObj (stripUnknown shape kvs)) else Inl issues)"
| "zodParse shape v = Inl [([], invalidType ''object'' v)]"

definition issueText :: "zod_issue \<Rightarrow> string" where
  \<comment> \<open>\<open>`${e.path.join('.')}: ${e.message}`\<close>\<close>
  "issueText e = join ''.'' (fst e) @ '': '' @ snd e"

definition validationMessage :: "string \<Rightarrow> zod_issue list \<Rightarrow> string" where
  "validationMessage method issues =
     ''Validation failed for '' @ method @ '': '' @ join '', '' (map issueText issues)"

section \<open>The state of the process\<close>

text \<open>
  The logger (utils/logger.ts) is not part of the sources at hand; its calls are modelled
  as appending an entry to the log.
\<close>

datatype log_entry =
    LogInfo string
  | LogWarning string
  | LogError string error

datatype circuit_state = Closed | Open | HalfOpen

record circuit_breaker =
  state :: circuit_state
  consecutiveFailures :: nat
  lastFailureTime :: "nat option"
  failureThreshold :: nat
  resetTimeoutMs :: nat

record cache_entry =
  entryValue :: payload
  expiresAt :: nat

text \<open>
  The tool handlers import the cache and the logger only: the \<open>store\<close> is the part of the
  process state they can read and change.
\<close>

record store =
  clock :: nat                                 \<comment> \<open>\<open>Date.now()\<close>, in milliseconds\<close>
  cache :: "string \<rightharpoonup> cache_entry"             \<comment> \<open>the process-wide cache\<close>
  logs :: "log_entry list"

text \<open>
  \<open>trace\<close> is not a state of the program: it records, in order, each entry into and exit
  from the circuit breaker's \<open>execute\<close> and each call of a tool handler, so that theorems
  can say which of them ran.
\<close>

datatype call = ExecuteEntered | ExecuteLeft | ToolHandlerCalled string

record world =
  store :: store
  breaker :: circuit_breaker                   \<comment> \<open>\<open>circuitBreakers.external\<close>\<close>
  trace :: "call list"

type_synonym 'a lookup = "store \<Rightarrow> (error + 'a) \<times> store"

type_synonym 'a action = "world \<Rightarrow> (error + 'a) \<times> world"

definition inStore :: "'a lookup \<Rightarrow> 'a action" where
  \<comment> \<open>a computation on the store, run in the process\<close>
  "inStore f w = (case f (store w) of (r, s) \<Rightarrow> (r, w\<lparr>store := s\<rparr>))"

definition logInfo :: "string \<Rightarrow> store \<Rightarrow> store" where
  \<comment> \<open>Modelled from the spec: utils/logger.ts is missing; a call appends one entry\<close>
  "logInfo msg s = s\<lparr>logs := logs s @ [LogInfo msg]\<rparr>"

definition logWarning :: "string \<Rightarrow> store \<Rightarrow> store" where
  \<comment> \<open>Modelled from the spec: utils/logger.ts is missing; a call appends one entry\<close>
  "logWarning msg s = s\<lparr>logs := logs s @ [LogWarning msg]\<rparr>"

definition logError :: "string \<Rightarrow> error \<Rightarrow> store \<Rightarrow> store" where
  \<comment> \<open>Modelled from the spec: utils/logger.ts is missing; a call appends one entry with
      the message and the error\<close>
  "logError msg e s = s\<lparr>logs := logs s @ [LogError msg e]\<rparr>"

definition traced :: "call \<Rightarrow> world \<Rightarrow> world" where
  "traced c w = w\<lparr>trace := trace w @ [c]\<rparr>"

subsection \<open>Validation\<close>

definition validateAndSanitizeParams :: "string \<Rightarrow> json \<Rightarrow> json lookup" where
  "validateAndSanitizeParams method params w =
     (case js_get methodSchemas method of
        Undefined \<Rightarrow>
          (Inr (orEmptyObject params),
           logWarning (''No validation schema found for method: '' @ method) w)
      | Own schema \<Rightarrow>
          (case zodParse schema (orEmptyObject params) of
             Inr parsed \<Rightarrow> (Inr parsed, w)
           | Inl issues \<Rightarrow> (Inl (Error (validationMessage method issues)), w))
      | Inherited key \<Rightarrow>
          \<comment> \<open>the inherited member is truthy and has no \<open>parse\<close>; the \<open>TypeError\<close> is not a
              \<open>ZodError\<close> and is thrown again as it is\<close>
          (Inl (TypeError ''schema.parse is not a function''), w))"

subsection \<open>The cache\<close>

text \<open>
  Modelled from the spec: utils/cache.ts is not part of the sources at hand. The spec's
  section 4.1: \<open>set(key, value, ttlMs)\<close> stores the value with \<open>expiresAt = now + ttlMs\<close>,
  overwriting any prior entry; \<open>get(key)\<close> returns the value only while \<open>now < expiresAt\<close>,
  absent if the key was never set or its entry has expired, with no side effect on a miss
  (an expired entry is ignored).
\<close>

definition cache_get :: "string \<Rightarrow> store \<Rightarrow> payload option \<times> store" where
  \<comment> \<open>Modelled from the spec: utils/cache.ts is missing; \<open>get(key)\<close> of section 4.1\<close>
  "cache_get key w =
     (case cache w key of
        None \<Rightarrow> (None, w)
      | Some e \<Rightarrow> (if clock w < expiresAt e then Some (entryValue e) else None, w))"

definition cache_set :: "string \<Rightarrow> payload \<Rightarrow> nat \<Rightarrow> store \<Rightarrow> store" where
  \<comment> \<open>Modelled from the spec: utils/cache.ts is missing; \<open>set(key, value, ttlMs)\<close> of
      section 4.1\<close>
  "cache_set key v ttlMs w =
     w\<lparr>cache := (cache w)(key \<mapsto> \<lparr>entryValue = v, expiresAt = clock w + ttlMs\<rparr>)\<rparr>"

definition advance :: "nat \<Rightarrow> store \<Rightarrow> store" where
  \<comment> \<open>time passes\<close>
  "advance ms w = w\<lparr>clock := clock w + ms\<rparr>"

subsection \<open>The circuit breaker\<close>

text \<open>
  Modelled from the spec: utils/circuit-breaker.ts is not part of the sources at hand. The
  spec's section 4.2: closed lets every invocation through, a success resets
  \<open>consecutiveFailures\<close>, a failure increments it and, when it reaches \<open>failureThreshold\<close>,
  opens the breaker and records \<open>lastFailureTime\<close>; open rejects with \<open>CircuitOpenError\<close>
  without invoking the work, unless \<open>now - lastFailureTime \<ge> resetTimeoutMs\<close>, when the
  breaker becomes half-open and lets the invocation through; in half-open a success closes
  the breaker and resets the count, a failure opens it again and updates
  \<open>lastFailureTime\<close>. The spec says nothing of a failure reported while the breaker is
  already open, which happens when the work itself runs \<open>execute\<close> on the same breaker:
  here the breaker stays open and \<open>lastFailureTime\<close> is updated.
\<close>

definition cooldownElapsed :: "world \<Rightarrow> bool" where
  \<comment> \<open>Modelled from the spec: utils/circuit-breaker.ts is missing;
      \<open>now - lastFailureTime \<ge> resetTimeoutMs\<close> of section 4.2\<close>
  "cooldownElapsed w =
     (case lastFailureTime (breaker w) of
        None \<Rightarrow> True
      | Some t \<Rightarrow> resetTimeoutMs (breaker w) \<le> clock (store w) - t)"

definition onSuccess :: "world \<Rightarrow> world" where
  \<comment> \<open>Modelled from the spec: utils/circuit-breaker.ts is missing; the transitions of
      section 4.2 on a success\<close>
  "onSuccess w = w\<lparr>breaker := (breaker w)\<lparr>state := Closed, consecutiveFailures := 0\<rparr>\<rparr>"

definition onFailure :: "world \<Rightarrow> world" where
  \<comment> \<open>Modelled from the spec: utils/circuit-breaker.ts is missing; the transitions of
      section 4.2 on a failure\<close>
  "onFailure w =
     (let b = breaker w in
      case state b of
        Closed \<Rightarrow>
          (let n = consecutiveFailures b + 1 in
           if failureThreshold b \<le> n
           then w\<lparr>breaker := b\<lparr>state := Open, consecutiveFailures := n,
                                 lastFailureTime := Some (clock (store w))\<rparr>\<rparr>
           else w\<lparr>breaker := b\<lparr>consecutiveFailures := n\<rparr>\<rparr>)
      | HalfOpen \<Rightarrow> w\<lparr>breaker := b\<lparr>state := Open, lastFailureTime := Some (clock (store w))\<rparr>\<rparr>
      | Open \<Rightarrow> w\<lparr>breaker := b\<lparr>lastFailureTime := Some (clock (store w))\<rparr>\<rparr>)"

definition execute :: "'a action \<Rightarrow> 'a action" where
  \<comment> \<open>Modelled from the spec: utils/circuit-breaker.ts is missing; \<open>execute(work)\<close> of
      section 4.2\<close>
  "execute work w =
     (let w0 = traced ExecuteEntered w in
      if state (breaker w0) = Open \<and> \<not> cooldownElapsed w0
      then (Inl CircuitOpenError, traced ExecuteLeft w0)
      else
        (let w1 = (if state (breaker w0) = Open
                   then w0\<lparr>breaker := (breaker w0)\<lparr>state := HalfOpen\<rparr>\<rparr> else w0)
         in case work w1 of
              (Inr v, w2) \<Rightarrow> (Inr v, traced ExecuteLeft (onSuccess w2))
            | (Inl e, w2) \<Rightarrow> (Inl e, traced ExecuteLeft (onFailure w2))))"

section \<open>The component catalog (tools/components/get-component.ts)\<close>

record component_prop =
  prop_name :: string
  prop_type :: string
  prop_description :: string
  prop_required :: bool
  prop_default :: "string option"

definition mkProp :: "string \<Rightarrow> string \<Rightarrow> string \<Rightarrow> bool \<Rightarrow> string option \<Rightarrow> component_prop" where
  "mkProp n t d r df =
     \<lparr>prop_name = n, prop_type = t, prop_description = d, prop_required = r, prop_default = df\<rparr>"

record component =
  comp_name :: string
  comp_type :: string
  comp_description :: string
  comp_props :: "component_prop list"
  comp_example :: "string option"

definition component_reactflow :: component where
  "component_reactflow = \<lparr>
     comp_name = ''<ReactFlow />'',
     comp_type = ''Core Component'',
     comp_description = (''The main component for rendering interactive node-based graphs. It handles panning, zooming, '' @
       ''selecting, and connecting nodes.''),
     comp_props = [
       mkProp ''nodes'' ''Node[]''
         ''Array of nodes to render''
         True None,
       mkProp ''edges'' ''Edge[]''
         ''Array of edges connecting nodes''
         True None,
       mkProp ''onNodesChange'' ''OnNodesChange''
         ''Callback when nodes change (move, select, remove)''
         False None,
       mkProp ''onEdgesChange'' ''OnEdgesChange''
         ''Callback when edges change (select, remove)''
         False None,
       mkProp ''onConnect'' ''OnConnect''
         ''Callback when a new connection is made''
         False None,
       mkProp ''nodeTypes'' ''NodeTypes''
         ''Custom node type components''
         False None,
       mkProp ''edgeTypes'' ''EdgeTypes''
         ''Custom edge type components''
         False None,
       mkProp ''defaultViewport'' ''Viewport''
         ''Initial viewport position and zoom''
         False None,
       mkProp ''minZoom'' ''number''
         ''Minimum zoom level''
         False (Some ''0.5''),
       mkProp ''maxZoom'' ''number''
         ''Maximum zoom level''
         False (Some ''2''),
       mkProp ''fitView'' ''boolean''
         ''Fit all nodes in view on load''
         False (Some ''false''),
       mkProp ''snapToGrid'' ''boolean''
         ''Snap nodes to grid when dragging''
         False (Some ''false''),
       mkProp ''snapGrid'' ''[number, number]''
         ''Grid size for snapping''
         False (Some ''[15, 15]''),
       mkProp ''connectionMode'' ''ConnectionMode''
         ''How connections can be made (strict or loose)''
         False None,
       mkProp ''panOnDrag'' ''boolean | number[]''
         ''Enable panning on drag''
         False (Some ''true''),
       mkProp ''selectionOnDrag'' ''boolean''
         ''Enable selection box on drag''
         False (Some ''false''),
       mkProp ''panOnScroll'' ''boolean''
         ''Enable panning on scroll''
         False (Some ''false''),
       mkProp ''zoomOnScroll'' ''boolean''
         ''Enable zoom on scroll''
         False (Some ''true''),
       mkProp ''zoomOnPinch'' ''boolean''
         ''Enable zoom on pinch gesture''
         False (Some ''true''),
       mkProp ''zoomOnDoubleClick'' ''boolean''
         ''Enable zoom on double click''
         False (Some ''true''),
       mkProp ''preventScrolling'' ''boolean''
         ''Prevent page scrolling when over flow''
         False (Some ''true''),
       mkProp ''nodesDraggable'' ''boolean''
         ''Allow nodes to be dragged''
         False (Some ''true''),
       mkProp ''nodesConnectable'' ''boolean''
         ''Allow nodes to be connected''
         False (Some ''true''),
       mkProp ''elementsSelectable'' ''boolean''
         ''Allow elements to be selected''
         False (Some ''true''),
       mkProp ''proOptions'' ''ProOptions''
         ''React Flow Pro options (remove attribution, etc.)''
         False None],
     comp_example = (Some (''import { ReactFlow, useNodesState, useEdgesState, addEdge } from '@xyflow/react';\<newline>'' @
       ''import '@xyflow/react/dist/style.css';\<newline>'' @
       ''\<newline>'' @
       ''const initialNodes = [\<newline>'' @
       ''  { id: '1', position: { x: 0, y: 0 }, data: { label: 'Node 1' } },\<newline>'' @
       ''  { id: '2', position: { x: 200, y: 100 }, data: { label: 'Node 2' } },\<newline>'' @
       ''];\<newline>'' @
       ''\<newline>'' @
       ''const initialEdges = [\<newline>'' @
       ''  { id: 'e1-2', source: '1', target: '2' },\<newline>'' @
       ''];\<newline>'' @
       ''\<newline>'' @
       ''function Flow() {\<newline>'' @
       ''  const [nodes, setNodes, onNodesChange] = useNodesState(initialNodes);\<newline>'' @
       ''  const [edges, setEdges, onEdgesChange] = useEdgesState(initialEdges);\<newline>'' @
       ''\<newline>'' @
       ''  const onConnect = useCallback(\<newline>'' @
       ''    (params) => setEdges((eds) => addEdge(params, eds)),\<newline>'' @
       ''    [setEdges]\<newline>'' @
       ''  );\<newline>'' @
       ''\<newline>'' @
       ''  return (\<newline>'' @
       ''    <ReactFlow\<newline>'' @
       ''      nodes={nodes}\<newline>'' @
       ''      edges={edges}\<newline>'' @
       ''      onNodesChange={onNodesChange}\<newline>'' @
       ''      onEdgesChange={onEdgesChange}\<newline>'' @
       ''      onConnect={onConnect}\<newline>'' @
       ''      fitView\<newline>'' @
       ''    />\<newline>'' @
       ''  );\<newline>'' @
       ''}''))\<rparr>"

definition component_reactflowprovider :: component where
  "component_reactflowprovider = \<lparr>
     comp_name = ''<ReactFlowProvider />'',
     comp_type = ''Provider Component'',
     comp_description = (''Context provider that enables React Flow hooks to be used outside of the ReactFlow component. '' @
       ''Required when using hooks like useReactFlow() in parent components.''),
     comp_props = [],
     comp_example = (Some (''import { ReactFlow, ReactFlowProvider, useReactFlow } from '@xyflow/react';\<newline>'' @
       ''\<newline>'' @
       ''function FlowControls() {\<newline>'' @
       ''  const { zoomIn, zoomOut, fitView } = useReactFlow();\<newline>'' @
       ''\<newline>'' @
       ''  return (\<newline>'' @
       ''    <div>\<newline>'' @
       ''      <button onClick={() => zoomIn()}>Zoom In</button>\<newline>'' @
       ''      <button onClick={() => zoomOut()}>Zoom Out</button>\<newline>'' @
       ''      <button onClick={() => fitView()}>Fit View</button>\<newline>'' @
       ''    </div>\<newline>'' @
       ''  );\<newline>'' @
       ''}\<newline>'' @
       ''\<newline>'' @
       ''function App() {\<newline>'' @
       ''  return (\<newline>'' @
       ''    <ReactFlowProvider>\<newline>'' @
       ''      <FlowControls />\<newline>'' @
       ''      <ReactFlow nodes={nodes} edges={edges} />\<newline>'' @
       ''    </ReactFlowProvider>\<newline>'' @
       ''  );\<newline>'' @
       ''}''))\<rparr>"

definition component_background :: component where
  "component_background = \<lparr>
     comp_name = ''<Background />'',
     comp_type = ''Helper Component'',
     comp_description = ''Renders a customizable background pattern (dots, lines, or cross) behind the flow.'',
     comp_props = [
       mkProp ''variant'' ([CHR 0x22] @ ''dots'' @ [CHR 0x22] @ '' | '' @ [CHR 0x22] @ ''lines'' @ [CHR 0x22] @
           '' | '' @ [CHR 0x22] @ ''cross'' @ [CHR 0x22])
         ''Background pattern type''
         False (Some ([CHR 0x22] @ ''dots'' @ [CHR 0x22])),
       mkProp ''gap'' ''number | [number, number]''
         ''Gap between pattern elements''
         False (Some ''20''),
       mkProp ''size'' ''number''
         ''Size of pattern elements''
         False (Some ''1''),
       mkProp ''color'' ''string''
         ''Color of the background pattern''
         False None,
       mkProp ''bgColor'' ''string''
         ''Background color of the canvas''
         False None,
       mkProp ''lineWidth'' ''number''
         ''Width of lines (for lines/cross variants)''
         False (Some ''1'')],
     comp_example = (Some (''import { ReactFlow, Background, BackgroundVariant } from '@xyflow/react';\<newline>'' @
       ''\<newline>'' @
       ''function Flow() {\<newline>'' @
       ''  return (\<newline>'' @
       ''    <ReactFlow nodes={nodes} edges={edges}>\<newline>'' @
       ''      <Background variant={BackgroundVariant.Dots} gap={12} size={1} />\<newline>'' @
       ''    </ReactFlow>\<newline>'' @
       ''  );\<newline>'' @
       ''}''))\<rparr>"

definition component_controls :: component where
  "component_controls = \<lparr>
     comp_name = ''<Controls />'',
     comp_type = ''Helper Component'',
     comp_description = ''Renders zoom and fit-view controls for the flow.'',
     comp_props = [
       mkProp ''showZoom'' ''boolean''
         ''Show zoom in/out buttons''
         False (Some ''true''),
       mkProp ''showFitView'' ''boolean''
         ''Show fit view button''
         False (Some ''true''),
       mkProp ''showInteractive'' ''boolean''
         ''Show interactive toggle button''
         False (Some ''true''),
       mkProp ''position'' ''PanelPosition''
         ''Position of controls panel''
         False (Some ([CHR 0x22] @ ''bottom-left'' @ [CHR 0x22])),
       mkProp ''fitViewOptions'' ''FitViewOptions''
         ''Options for fit view behavior''
         False None,
       mkProp ''onZoomIn'' ''() => void''
         ''Callback when zoom in is clicked''
         False None,
       mkProp ''onZoomOut'' ''() => void''
         ''Callback when zoom out is clicked''
         False None,
       mkProp ''onFitView'' ''() => void''
         ''Callback when fit view is clicked''
         False None,
       mkProp ''onInteractiveChange'' ''(interactive: boolean) => void''
         ''Callback when interactive mode changes''
         False None],
     comp_example = (Some (''import { ReactFlow, Controls } from '@xyflow/react';\<newline>'' @
       ''\<newline>'' @
       ''function Flow() {\<newline>'' @
       ''  return (\<newline>'' @
       ''    <ReactFlow nodes={nodes} edges={edges}>\<newline>'' @
       ''      <Controls showInteractive={false} />\<newline>'' @
       ''    </ReactFlow>\<newline>'' @
       ''  );\<newline>'' @
       ''}''))\<rparr>"

definition component_minimap :: component where
  "component_minimap = \<lparr>
     comp_name = ''<MiniMap />'',
     comp_type = ''Helper Component'',
     comp_description = ''Renders a small overview map of the entire flow for navigation.'',
     comp_props = [
       mkProp ''nodeColor'' ''string | (node: Node) => string''
         ''Color of nodes in minimap''
         False None,
       mkProp ''nodeStrokeColor'' ''string | (node: Node) => string''
         ''Stroke color of nodes''
         False None,
       mkProp ''nodeBorderRadius'' ''number''
         ''Border radius of nodes''
         False (Some ''5''),
       mkProp ''nodeStrokeWidth'' ''number''
         ''Stroke width of nodes''
         False (Some ''2''),
       mkProp ''maskColor'' ''string''
         ''Color of the mask overlay''
         False None,
       mkProp ''maskStrokeColor'' ''string''
         ''Stroke color of viewport indicator''
         False None,
       mkProp ''maskStrokeWidth'' ''number''
         ''Stroke width of viewport indicator''
         False None,
       mkProp ''position'' ''PanelPosition''
         ''Position of minimap''
         False (Some ([CHR 0x22] @ ''bottom-right'' @ [CHR 0x22])),
       mkProp ''pannable'' ''boolean''
         ''Allow panning via minimap''
         False (Some ''false''),
       mkProp ''zoomable'' ''boolean''
         ''Allow zooming via minimap''
         False (Some ''false''),
       mkProp ''inversePan'' ''boolean''
         ''Invert panning direction''
         False (Some ''false'')],
     comp_example = (Some (''import { ReactFlow, MiniMap } from '@xyflow/react';\<newline>'' @
       ''\<newline>'' @
       ''function Flow() {\<newline>'' @
       ''  return (\<newline>'' @
       ''    <ReactFlow nodes={nodes} edges={edges}>\<newline>'' @
       ''      <MiniMap\<newline>'' @
       ''        nodeColor={(node) => node.type === 'input' ? 'blue' : 'gray'}\<newline>'' @
       ''        pannable\<newline>'' @
       ''        zoomable\<newline>'' @
       ''      />\<newline>'' @
       ''    </ReactFlow>\<newline>'' @
       ''  );\<newline>'' @
       ''}''))\<rparr>"

definition component_panel :: component where
  "component_panel = \<lparr>
     comp_name = ''<Panel />'',
     comp_type = ''Helper Component'',
     comp_description = ''A helper component to render content on top of the flow at specific positions.'',
     comp_props = [
       mkProp ''position'' ''PanelPosition''
         ''Position of the panel''
         True None,
       mkProp ''children'' ''ReactNode''
         ''Content to render in the panel''
         False None,
       mkProp ''className'' ''string''
         ''CSS class name''
         False None,
       mkProp ''style'' ''CSSProperties''
         ''Inline styles''
         False None],
     comp_example = (Some (''import { ReactFlow, Panel } from '@xyflow/react';\<newline>'' @
       ''\<newline>'' @
       ''function Flow() {\<newline>'' @
       ''  return (\<newline>'' @
       ''    <ReactFlow nodes={nodes} edges={edges}>\<newline>'' @
       ''      <Panel position='' @ [CHR 0x22] @ ''top-right'' @ [CHR 0x22] @ ''>\<newline>'' @
       ''        <button>Custom Button</button>\<newline>'' @
       ''      </Panel>\<newline>'' @
       ''    </ReactFlow>\<newline>'' @
       ''  );\<newline>'' @
       ''}''))\<rparr>"

definition component_handle :: component where
  "component_handle = \<lparr>
     comp_name = ''<Handle />'',
     comp_type = ''Node Component'',
     comp_description = ''Connection point for edges on custom nodes. Handles define where edges can connect.'',
     comp_props = [
       mkProp ''type'' ([CHR 0x22] @ ''source'' @ [CHR 0x22] @ '' | '' @ [CHR 0x22] @ ''target'' @ [CHR 0x22])
         ''Handle type (outgoing or incoming)''
         True None,
       mkProp ''position'' ''Position''
         ''Position on node (Top, Bottom, Left, Right)''
         True None,
       mkProp ''id'' ''string''
         ''Unique identifier for multiple handles''
         False None,
       mkProp ''isConnectable'' ''boolean''
         ''Whether handle can be connected''
         False (Some ''true''),
       mkProp ''isConnectableStart'' ''boolean''
         ''Can start connections from handle''
         False None,
       mkProp ''isConnectableEnd'' ''boolean''
         ''Can end connections at handle''
         False None,
       mkProp ''onConnect'' ''(connection: Connection) => void''
         ''Callback when connection made''
         False None,
       mkProp ''isValidConnection'' ''(connection: Connection) => boolean''
         ''Validate connection''
         False None],
     comp_example = (Some (''import { Handle, Position } from '@xyflow/react';\<newline>'' @
       ''\<newline>'' @
       ''function CustomNode({ data }) {\<newline>'' @
       ''  return (\<newline>'' @
       ''    <div className='' @ [CHR 0x22] @ ''custom-node'' @ [CHR 0x22] @ ''>\<newline>'' @
       ''      <Handle type='' @ [CHR 0x22] @ ''target'' @ [CHR 0x22] @
       '' position={Position.Top} />\<newline>'' @
       ''      <div>{data.label}</div>\<newline>'' @
       ''      <Handle type='' @ [CHR 0x22] @ ''source'' @ [CHR 0x22] @
       '' position={Position.Bottom} id='' @ [CHR 0x22] @ ''a'' @ [CHR 0x22] @
       '' />\<newline>'' @
       ''      <Handle type='' @ [CHR 0x22] @ ''source'' @ [CHR 0x22] @
       '' position={Position.Bottom} id='' @ [CHR 0x22] @ ''b'' @ [CHR 0x22] @
       '' style={{ left: 10 }} />\<newline>'' @
       ''    </div>\<newline>'' @
       ''  );\<newline>'' @
       ''}''))\<rparr>"

definition component_baseedge :: component where
  "component_baseedge = \<lparr>
     comp_name = ''<BaseEdge />'',
     comp_type = ''Edge Component'',
     comp_description = ''Base component for creating custom edges. Renders the SVG path for an edge.'',
     comp_props = [
       mkProp ''path'' ''string''
         ''SVG path string for the edge''
         True None,
       mkProp ''labelX'' ''number''
         ''X position of edge label''
         False None,
       mkProp ''labelY'' ''number''
         ''Y position of edge label''
         False None,
       mkProp ''label'' ''ReactNode''
         ''Edge label content''
         False None,
       mkProp ''labelStyle'' ''CSSProperties''
         ''Styles for the label''
         False None,
       mkProp ''labelShowBg'' ''boolean''
         ''Show background behind label''
         False (Some ''true''),
       mkProp ''labelBgStyle'' ''CSSProperties''
         ''Styles for label background''
         False None,
       mkProp ''labelBgPadding'' ''[number, number]''
         ''Padding for label background''
         False (Some ''[2, 4]''),
       mkProp ''labelBgBorderRadius'' ''number''
         ''Border radius of label background''
         False (Some ''2''),
       mkProp ''style'' ''CSSProperties''
         ''Styles for the edge path''
         False None,
       mkProp ''markerEnd'' ''string''
         ''Marker at end of edge''
         False None,
       mkProp ''markerStart'' ''string''
         ''Marker at start of edge''
         False None,
       mkProp ''interactionWidth'' ''number''
         ''Width of interaction area''
         False (Some ''20'')],
     comp_example = (Some (''import { BaseEdge, getSmoothStepPath } from '@xyflow/react';\<newline>'' @
       ''\<newline>'' @
       ''function CustomEdge({ sourceX, sourceY, targetX, targetY, ...props }) {\<newline>'' @
       ''  const [edgePath, labelX, labelY] = getSmoothStepPath({\<newline>'' @
       ''    sourceX,\<newline>'' @
       ''    sourceY,\<newline>'' @
       ''    targetX,\<newline>'' @
       ''    targetY,\<newline>'' @
       ''  });\<newline>'' @
       ''\<newline>'' @
       ''  return (\<newline>'' @
       ''    <BaseEdge path={edgePath} labelX={labelX} labelY={labelY} {...props} />\<newline>'' @
       ''  );\<newline>'' @
       ''}''))\<rparr>"

definition component_edgelabelrenderer :: component where
  "component_edgelabelrenderer = \<lparr>
     comp_name = ''<EdgeLabelRenderer />'',
     comp_type = ''Edge Component'',
     comp_description = ''Renders edge labels outside the SVG context for better styling capabilities and performance.'',
     comp_props = [],
     comp_example = (Some (''import { BaseEdge, EdgeLabelRenderer, getStraightPath } from '@xyflow/react';\<newline>'' @
       ''\<newline>'' @
       ''function CustomEdge({ sourceX, sourceY, targetX, targetY, label }) {\<newline>'' @
       ''  const [edgePath, labelX, labelY] = getStraightPath({\<newline>'' @
       ''    sourceX, sourceY, targetX, targetY\<newline>'' @
       ''  });\<newline>'' @
       ''\<newline>'' @
       ''  return (\<newline>'' @
       ''    <>\<newline>'' @
       ''      <BaseEdge path={edgePath} />\<newline>'' @
       ''      <EdgeLabelRenderer>\<newline>'' @
       ''        <div\<newline>'' @
       ''          style={{\<newline>'' @
       ''            position: 'absolute',\<newline>'' @
       ''            transform: `translate(-50%, -50%) translate(${labelX}px, ${labelY}px)`,\<newline>'' @
       ''            pointerEvents: 'all',\<newline>'' @
       ''          }}\<newline>'' @
       ''          className='' @ [CHR 0x22] @ ''edge-label'' @ [CHR 0x22] @ ''\<newline>'' @
       ''        >\<newline>'' @
       ''          {label}\<newline>'' @
       ''        </div>\<newline>'' @
       ''      </EdgeLabelRenderer>\<newline>'' @
       ''    </>\<newline>'' @
       ''  );\<newline>'' @
       ''}''))\<rparr>"

definition component_noderesizer :: component where
  "component_noderesizer = \<lparr>
     comp_name = ''<NodeResizer />'',
     comp_type = ''Node Component'',
     comp_description = ''Adds resize handles to custom nodes, allowing users to resize nodes interactively.'',
     comp_props = [
       mkProp ''minWidth'' ''number''
         ''Minimum width of node''
         False (Some ''10''),
       mkProp ''minHeight'' ''number''
         ''Minimum height of node''
         False (Some ''10''),
       mkProp ''maxWidth'' ''number''
         ''Maximum width of node''
         False None,
       mkProp ''maxHeight'' ''number''
         ''Maximum height of node''
         False None,
       mkProp ''keepAspectRatio'' ''boolean''
         ''Maintain aspect ratio while resizing''
         False (Some ''false''),
       mkProp ''shouldResize'' ''(event, params) => boolean''
         ''Control whether resize should happen''
         False None,
       mkProp ''onResizeStart'' ''(event, params) => void''
         ''Callback when resize starts''
         False None,
       mkProp ''onResize'' ''(event, params) => void''
         ''Callback during resize''
         False None,
       mkProp ''onResizeEnd'' ''(event, params) => void''
         ''Callback when resize ends''
         False None,
       mkProp ''isVisible'' ''boolean''
         ''Show resizer handles''
         False (Some ''true''),
       mkProp ''lineClassName'' ''string''
         ''Class for resize lines''
         False None,
       mkProp ''handleClassName'' ''string''
         ''Class for resize handles''
         False None],
     comp_example = (Some (''import { Handle, Position, NodeResizer } from '@xyflow/react';\<newline>'' @
       ''\<newline>'' @
       ''function ResizableNode({ data }) {\<newline>'' @
       ''  return (\<newline>'' @
       ''    <>\<newline>'' @
       ''      <NodeResizer minWidth={100} minHeight={50} />\<newline>'' @
       ''      <Handle type='' @ [CHR 0x22] @ ''target'' @ [CHR 0x22] @
       '' position={Position.Top} />\<newline>'' @
       ''      <div style={{ padding: 10 }}>{data.label}</div>\<newline>'' @
       ''      <Handle type='' @ [CHR 0x22] @ ''source'' @ [CHR 0x22] @
       '' position={Position.Bottom} />\<newline>'' @
       ''    </>\<newline>'' @
       ''  );\<newline>'' @
       ''}''))\<rparr>"

definition component_nodetoolbar :: component where
  "component_nodetoolbar = \<lparr>
     comp_name = ''<NodeToolbar />'',
     comp_type = ''Node Component'',
     comp_description = ''Renders a toolbar that appears when a node is selected.'',
     comp_props = [
       mkProp ''nodeId'' ''string | string[]''
         ''ID(s) of node(s) to attach toolbar to''
         False None,
       mkProp ''isVisible'' ''boolean''
         ''Control visibility''
         False None,
       mkProp ''position'' ''Position''
         ''Position relative to node''
         False (Some ''Position.Top''),
       mkProp ''offset'' ''number''
         ''Offset from node''
         False (Some ''10''),
       mkProp ''align'' ([CHR 0x22] @ ''center'' @ [CHR 0x22] @ '' | '' @ [CHR 0x22] @ ''start'' @ [CHR 0x22] @
           '' | '' @ [CHR 0x22] @ ''end'' @ [CHR 0x22])
         ''Alignment of toolbar''
         False (Some ([CHR 0x22] @ ''center'' @ [CHR 0x22]))],
     comp_example = (Some (''import { Handle, Position, NodeToolbar } from '@xyflow/react';\<newline>'' @
       ''\<newline>'' @
       ''function NodeWithToolbar({ data }) {\<newline>'' @
       ''  return (\<newline>'' @
       ''    <>\<newline>'' @
       ''      <NodeToolbar>\<newline>'' @
       ''        <button>Edit</button>\<newline>'' @
       ''        <button>Delete</button>\<newline>'' @
       ''      </NodeToolbar>\<newline>'' @
       ''      <Handle type='' @ [CHR 0x22] @ ''target'' @ [CHR 0x22] @
       '' position={Position.Top} />\<newline>'' @
       ''      <div>{data.label}</div>\<newline>'' @
       ''      <Handle type='' @ [CHR 0x22] @ ''source'' @ [CHR 0x22] @
       '' position={Position.Bottom} />\<newline>'' @
       ''    </>\<newline>'' @
       ''  );\<newline>'' @
       ''}''))\<rparr>"

definition component_viewportportal :: component where
  "component_viewportportal = \<lparr>
     comp_name = ''<ViewportPortal />'',
     comp_type = ''Helper Component'',
     comp_description = (''Renders content in the viewport coordinate system, useful for custom overlays that should '' @
       ''transform with the viewport.''),
     comp_props = [],
     comp_example = (Some (''import { ReactFlow, ViewportPortal } from '@xyflow/react';\<newline>'' @
       ''\<newline>'' @
       ''function Flow() {\<newline>'' @
       ''  return (\<newline>'' @
       ''    <ReactFlow nodes={nodes} edges={edges}>\<newline>'' @
       ''      <ViewportPortal>\<newline>'' @
       ''        <div style={{ transform: 'translate(100px, 100px)' }}>\<newline>'' @
       ''          This content moves with the viewport\<newline>'' @
       ''        </div>\<newline>'' @
       ''      </ViewportPortal>\<newline>'' @
       ''    </ReactFlow>\<newline>'' @
       ''  );\<newline>'' @
       ''}''))\<rparr>"

definition component_controlbutton :: component where
  "component_controlbutton = \<lparr>
     comp_name = ''<ControlButton />'',
     comp_type = ''Helper Component'',
     comp_description = ''A button component for adding custom buttons to the Controls panel.'',
     comp_props = [
       mkProp ''children'' ''ReactNode''
         ''Button content''
         False None,
       mkProp ''onClick'' ''() => void''
         ''Click handler''
         False None,
       mkProp ''className'' ''string''
         ''CSS class name''
         False None,
       mkProp ''title'' ''string''
         ''Button title/tooltip''
         False None],
     comp_example = (Some (''import { ReactFlow, Controls, ControlButton } from '@xyflow/react';\<newline>'' @
       ''import { FaCamera } from 'react-icons/fa';\<newline>'' @
       ''\<newline>'' @
       ''function Flow() {\<newline>'' @
       ''  const onScreenshot = () => {\<newline>'' @
       ''    // Take screenshot logic\<newline>'' @
       ''  };\<newline>'' @
       ''\<newline>'' @
       ''  return (\<newline>'' @
       ''    <ReactFlow nodes={nodes} edges={edges}>\<newline>'' @
       ''      <Controls>\<newline>'' @
       ''        <ControlButton onClick={onScreenshot} title='' @ [CHR 0x22] @
       ''Take Screenshot'' @ [CHR 0x22] @ ''>\<newline>'' @
       ''          <FaCamera />\<newline>'' @
       ''        </ControlButton>\<newline>'' @
       ''      </Controls>\<newline>'' @
       ''    </ReactFlow>\<newline>'' @
       ''  );\<newline>'' @
       ''}''))\<rparr>"

definition components :: "(string \<times> component) list" where
  "components = [
     (''reactflow'', component_reactflow),
     (''reactflowprovider'', component_reactflowprovider),
     (''background'', component_background),
     (''controls'', component_controls),
     (''minimap'', component_minimap),
     (''panel'', component_panel),
     (''handle'', component_handle),
     (''baseedge'', component_baseedge),
     (''edgelabelrenderer'', component_edgelabelrenderer),
     (''noderesizer'', component_noderesizer),
     (''nodetoolbar'', component_nodetoolbar),
     (''viewportportal'', component_viewportportal),
     (''controlbutton'', component_controlbutton)]"


definition normalizeComponentName :: "string \<Rightarrow> string" where
  \<comment> \<open>\<open>componentName.toLowerCase().replace(/[<>\/\s]/g, '')\<close>\<close>
  "normalizeComponentName componentName =
     filter (\<lambda>c. c \<notin> set ''<>/'' \<and> \<not> isSpace c) (toLowerCase componentName)"

definition renderProp :: "component_prop \<Rightarrow> string" where
  "renderProp p =
     ''- **'' @ prop_name p @ ''** (`'' @ prop_type p @ ''`)'' @
     (if prop_required p then '' *required*'' else '''') @ '': '' @ prop_description p @
     (case prop_default p of
        Some d \<Rightarrow> if d \<noteq> [] then '' - Default: `'' @ d @ ''`'' else ''''
      | None \<Rightarrow> '''') @
     ''\<newline>''"

definition renderComponent :: "component \<Rightarrow> string" where
  "renderComponent c =
     ''# '' @ comp_name c @ ''\<newline>\<newline>'' @
     ''**Type:** '' @ comp_type c @ ''\<newline>\<newline>'' @
     ''**Description:** '' @ comp_description c @ ''\<newline>\<newline>'' @
     (if 0 < length (comp_props c)
      then ''## Props\<newline>\<newline>'' @ concat (map renderProp (comp_props c)) @ ''\<newline>''
      else '''') @
     (case comp_example c of
        Some ex \<Rightarrow>
          if ex \<noteq> [] then ''## Example\<newline>\<newline>```tsx\<newline>'' @ ex @ ''\<newline>```\<newline>'' else ''''
      | None \<Rightarrow> '''')"

definition renderInherited :: "string \<Rightarrow> string" where
  \<comment> \<open>the same template over a member of \<open>Object.prototype\<close>, which has no \<open>type\<close>,
      \<open>description\<close>, \<open>props\<close> or \<open>example\<close>\<close>
  "renderInherited key =
     ''# '' @ inheritedName key @ ''\<newline>\<newline>'' @
     ''**Type:** undefined\<newline>\<newline>'' @
     ''**Description:** undefined\<newline>\<newline>''"

definition componentNotFound :: "string \<Rightarrow> string" where
  "componentNotFound componentName =
     ''Component '' @ dq @ componentName @ dq @ '' not found. Available components: '' @
     join '', '' (map (\<lambda>(k, c). comp_name c) components)"

definition getComponentInfo :: "string \<Rightarrow> payload" where
  "getComponentInfo componentName =
     (case js_get components (normalizeComponentName componentName) of
        Undefined \<Rightarrow> Content (componentNotFound componentName)
      | Own c \<Rightarrow> Content (renderComponent c)
      | Inherited key \<Rightarrow> Content (renderInherited key))"

definition toLowerCaseError :: "string \<Rightarrow> json \<Rightarrow> error" where
  \<comment> \<open>the \<open>TypeError\<close> of \<open>v.toLowerCase()\<close> for a value that is not a string\<close>
  "toLowerCaseError var v =
     (if v = JUndefined \<or> v = JNull
      then TypeError (''Cannot read properties of '' @ parsedType v @
                      '' (reading '' @ [CHR 0x27] @ ''toLowerCase'' @ [CHR 0x27] @ '')'')
      else TypeError (var @ ''.toLowerCase is not a function''))"

definition handleGetComponent :: "json \<Rightarrow> payload lookup" where
  "handleGetComponent params s =
     (let componentName = js_field params ''componentName'' in
      case js_toString componentName of
        Inl e \<Rightarrow> (Inl e, s)
      | Inr shown \<Rightarrow>
          (let s1 = logInfo (''Getting React Flow component: '' @ shown) s in
           case componentName of
             JStr name \<Rightarrow>
               (let cacheKey = ''react-flow-component-'' @ toLowerCase name in
                case cache_get cacheKey s1 of
                  (Some cached, s2) \<Rightarrow> (Inr cached, s2)
                | (None, s2) \<Rightarrow>
                    (let componentInfo = getComponentInfo name in
                     (Inr componentInfo, cache_set cacheKey componentInfo (30 * 60 * 1000) s2)))
           | _ \<Rightarrow> (Inl (toLowerCaseError ''componentName'' componentName), s1)))"

section \<open>The component list (tools/components/list-components.ts)\<close>

definition componentCategories :: "(string \<times> (string \<times> string) list) list" where
  \<comment> \<open>each category with the name and description of its components\<close>
  "componentCategories = [
     (''core'', [
        (''<ReactFlow />'', ''Main component for rendering interactive node-based graphs''),
        (''<ReactFlowProvider />'',
         ''Context provider for using React Flow hooks outside the main component'')]),
     (''helper'', [
        (''<Background />'', ''Renders a customizable background pattern (dots, lines, cross)''),
        (''<Controls />'', ''Renders zoom and fit-view controls''),
        (''<MiniMap />'', ''Renders a small overview map for navigation''),
        (''<Panel />'', ''Helper component to render content at specific positions''),
        (''<ViewportPortal />'', ''Renders content in the viewport coordinate system''),
        (''<ControlButton />'', ''Custom button component for the Controls panel'')]),
     (''node'', [
        (''<Handle />'', ''Connection point for edges on custom nodes''),
        (''<NodeResizer />'', ''Adds resize handles to custom nodes''),
        (''<NodeResizeControl />'', ''Individual resize control for custom positioning''),
        (''<NodeToolbar />'', ''Toolbar that appears when a node is selected'')]),
     (''edge'', [
        (''<BaseEdge />'', ''Base component for creating custom edges''),
        (''<EdgeLabelRenderer />'', ''Renders edge labels outside SVG for better styling''),
        (''<EdgeToolbar />'', ''Toolbar that appears when an edge is selected'')])]"

definition upperChar :: "char \<Rightarrow> char" where
  "upperChar c = (case map_of (zip lowerLetters upperLetters) c of Some u \<Rightarrow> u | None \<Rightarrow> c)"

definition capitalize :: "string \<Rightarrow> string" where
  \<comment> \<open>\<open>cat.charAt(0).toUpperCase() + cat.slice(1)\<close>, for the keys of the category table,
      to which alone it is applied; they begin with an ASCII letter\<close>
  "capitalize s = (case s of [] \<Rightarrow> [] | c # cs \<Rightarrow> upperChar c # cs)"

definition renderCategory :: "string \<times> (string \<times> string) list \<Rightarrow> string" where
  "renderCategory = (\<lambda>(cat, comps).
     ''## '' @ capitalize cat @ '' Components\<newline>\<newline>'' @
     concat (map (\<lambda>(name, description). ''- **'' @ name @ ''**: '' @ description @ ''\<newline>'') comps) @
     ''\<newline>'')"

definition renderComponentsList :: "(string \<times> (string \<times> string) list) list \<Rightarrow> string" where
  "renderComponentsList filteredComponents =
     ''# React Flow Components\<newline>\<newline>'' @
     concat (map renderCategory filteredComponents) @
     ''\<newline>---\<newline>\<newline>'' @
     ''Use `get_react_flow_component` to get detailed information about a specific component.\<newline>''"

definition getComponentsList :: "json \<Rightarrow> error + payload" where
  "getComponentsList category =
     (if truthy category then
        (case category of
           JStr c \<Rightarrow>
             (let normalizedCategory = toLowerCase c in
              case js_get componentCategories normalizedCategory of
                Own comps \<Rightarrow> Inr (Content (renderComponentsList [(normalizedCategory, comps)]))
              | Inherited key \<Rightarrow>
                  \<comment> \<open>the inherited member is truthy, so it is taken for the category's array\<close>
                  Inl (TypeError ''comps.forEach is not a function'')
              | Undefined \<Rightarrow>
                  Inr (Content (''Category '' @ dq @ c @ dq @
                    '' not found. Available categories: core, helper, node, edge'')))
         | _ \<Rightarrow> Inl (toLowerCaseError ''category'' category))
      else Inr (Content (renderComponentsList componentCategories)))"

definition handleListComponents :: "json \<Rightarrow> payload lookup" where
  "handleListComponents params s =
     (let category = js_field params ''category'' in
      case (if truthy category then js_toString category else Inr ''all'') of
        Inl e \<Rightarrow> (Inl e, s)
      | Inr shown \<Rightarrow>
          (let s1 = logInfo (''Listing React Flow components'' @
                      (if truthy category then '' in category: '' @ shown else '''')) s;
               cacheKey = ''react-flow-components-list-'' @ shown
           in case cache_get cacheKey s1 of
                (Some cached, s2) \<Rightarrow> (Inr cached, s2)
              | (None, s2) \<Rightarrow>
                  (case getComponentsList category of
                     Inl e \<Rightarrow> (Inl e, s2)
                   | Inr result \<Rightarrow> (Inr result, cache_set cacheKey result (60 * 60 * 1000) s2))))"

section \<open>The example search handler (tools/examples/search-examples.ts)\<close>

definition handleSearchExamples :: "json \<Rightarrow> payload lookup" where
  "handleSearchExamples params s =
     (let query = js_field params ''query'' in
      case js_toString query of
        Inl e \<Rightarrow> (Inl e, s)
      | Inr shown \<Rightarrow>
          (let s1 = logInfo (''Searching React Flow examples for: '' @ shown) s in
           case query of
             JStr q \<Rightarrow>
               (let cacheKey = ''react-flow-example-search-'' @ toLowerCase q in
                case cache_get cacheKey s1 of
                  (Some cached, s2) \<Rightarrow> (Inr cached, s2)
                | (None, s2) \<Rightarrow>
                    (let result = searchExamples q in
                     (Inr result, cache_set cacheKey result (15 * 60 * 1000) s2)))
           | _ \<Rightarrow> (Inl (toLowerCaseError ''query'' query), s1)))"

section \<open>The tool registry (tools/index.ts)\<close>

type_synonym handler = "json \<Rightarrow> payload lookup"

text \<open>
  The handlers of the hook, type, utility, example and documentation tools are parameters
  of the model, as is the outcome of calling a member of \<open>Object.prototype\<close> that the
  registry lookup took for a handler. Like the handlers modelled above, they run on the
  store.
\<close>

record registry =
  handleGetHook :: handler
  handleListHooks :: handler
  handleGetType :: handler
  handleListTypes :: handler
  handleGetUtility :: handler
  handleListUtilities :: handler
  handleGetExample :: handler
  handleGetDocs :: handler
  inheritedCall :: "string \<Rightarrow> json \<Rightarrow> error + json"

definition toolHandlers :: "registry \<Rightarrow> (string \<times> handler) list" where
  "toolHandlers reg = [
     (''get_react_flow_component'', handleGetComponent),
     (''list_react_flow_components'', handleListComponents),
     (''get_react_flow_hook'', handleGetHook reg),
     (''list_react_flow_hooks'', handleListHooks reg),
     (''get_react_flow_type'', handleGetType reg),
     (''list_react_flow_types'', handleListTypes reg),
     (''get_react_flow_utility'', handleGetUtility reg),
     (''list_react_flow_utilities'', handleListUtilities reg),
     (''get_react_flow_example'', handleGetExample reg),
     (''search_react_flow_examples'', handleSearchExamples),
     (''get_react_flow_docs'', handleGetDocs reg)]"

section \<open>The request handlers (handler.ts)\<close>

datatype tool_result =
    Payload payload     \<comment> \<open>what a tool handler returned\<close>
  | Foreign json        \<comment> \<open>what a member of \<open>Object.prototype\<close> returned\<close>

definition handleRequest :: "string \<Rightarrow> json \<Rightarrow> (json \<Rightarrow> 'a action) \<Rightarrow> 'a action" where
  "handleRequest method params handler w =
     (case inStore (validateAndSanitizeParams method params) w of
        (Inl e, w1) \<Rightarrow> (Inl e, w1\<lparr>store := logError (''Error in '' @ method) e (store w1)\<rparr>)
      | (Inr validatedParams, w1) \<Rightarrow>
          (case execute (handler validatedParams) w1 of
             (Inr result, w2) \<Rightarrow> (Inr result, w2)
           | (Inl e, w2) \<Rightarrow> (Inl e, w2\<lparr>store := logError (''Error in '' @ method) e (store w2)\<rparr>)))"

definition runToolHandler :: "string \<Rightarrow> handler \<Rightarrow> json \<Rightarrow> tool_result action" where
  \<comment> \<open>\<open>() => Promise.resolve(handler(params || {}))\<close>\<close>
  "runToolHandler name handler params w =
     (case inStore (handler (orEmptyObject params)) (traced (ToolHandlerCalled name) w) of
        (Inr p, w1) \<Rightarrow> (Inr (Payload p), w1)
      | (Inl e, w1) \<Rightarrow> (Inl e, w1))"

definition runInherited :: "registry \<Rightarrow> string \<Rightarrow> json \<Rightarrow> tool_result action" where
  "runInherited reg key params w =
     (case inheritedCall reg key (orEmptyObject params) of
        Inr v \<Rightarrow> (Inr (Foreign v), traced (ToolHandlerCalled key) w)
      | Inl e \<Rightarrow> (Inl e, traced (ToolHandlerCalled key) w))"

definition callTool :: "registry \<Rightarrow> json \<Rightarrow> tool_result action" where
  \<comment> \<open>the closure that the \<open>CallToolRequestSchema\<close> handler passes to \<open>handleRequest\<close>\<close>
  "callTool reg validatedParams w =
     (let name = js_field validatedParams ''name'';
          params = js_field validatedParams ''arguments''
      in case name of
           JStr n \<Rightarrow>
             if n = [] then (Inl (Error ''Tool name is required''), w)
             else
               (case js_get (toolHandlers reg) n of
                  Undefined \<Rightarrow> (Inl (Error (''Tool not found: '' @ n)), w)
                | Own handler \<Rightarrow> execute (runToolHandler n handler params) w
                | Inherited key \<Rightarrow> execute (runInherited reg key params) w)
         | _ \<Rightarrow> (Inl (Error ''Tool name is required''), w))"

definition callToolRequest :: "registry \<Rightarrow> json \<Rightarrow> tool_result action" where
  \<comment> \<open>the handler registered for \<open>CallToolRequestSchema\<close>\<close>
  "callToolRequest reg params = handleRequest ''call_tool'' params (callTool reg)"

definition isValidationError :: "error \<Rightarrow> bool" where
  \<comment> \<open>the errors that \<open>validateAndSanitizeParams\<close> makes from a \<open>ZodError\<close>\<close>
  "isValidationError e = (case e of Error msg \<Rightarrow> isPrefixOf ''Validation failed for '' msg | _ \<Rightarrow> False)"

section \<open>The start of the process\<close>

definition newBreaker :: "nat \<Rightarrow> nat \<Rightarrow> circuit_breaker" where
  \<comment> \<open>the breaker as constructed: closed, with its fixed configuration\<close>
  "newBreaker threshold timeout =
     \<lparr>state = Closed, consecutiveFailures = 0, lastFailureTime = None,
      failureThreshold = threshold, resetTimeoutMs = timeout\<rparr>"

definition startWorld :: "nat \<Rightarrow> nat \<Rightarrow> nat \<Rightarrow> world" where
  \<comment> \<open>the process at time \<open>t0\<close>: an empty cache, an empty log, a closed breaker\<close>
  "startWorld threshold timeout t0 =
     \<lparr>store = \<lparr>clock = t0, cache = Map.empty, logs = []\<rparr>,
      breaker = newBreaker threshold timeout,
      trace = []\<rparr>"

definition toolCall :: "string \<Rightarrow> json \<Rightarrow> json" where
  \<comment> \<open>the parameters of a \<open>tools/call\<close> request\<close>
  "toolCall name arguments = JObj [(''name'', JStr name), (''arguments'', arguments)]"

section \<open>The validation rule in the words of the specification\<close>

text \<open>
  The specification's conditions for a validation failure, over the members of a schema
  and a parameter object: a required member (one with \<open>stringSchema\<close>) is missing; a
  required string member is empty or longer than 1000 characters; a member that the schema
  types as a string holds a value that is not a string.
\<close>

definition requiredFieldMissing :: "zod_object \<Rightarrow> json \<Rightarrow> bool" where
  "requiredFieldMissing shape data =
     list_ex (\<lambda>(key, ty). ty = stringSchema \<and> js_field data key = JUndefined) shape"

definition requiredStringOutOfBounds :: "zod_object \<Rightarrow> json \<Rightarrow> bool" where
  "requiredStringOutOfBounds shape data =
     list_ex (\<lambda>(key, ty). ty = stringSchema \<and>
        (case js_field data key of JStr s \<Rightarrow> s = [] \<or> 1000 < length s | _ \<Rightarrow> False)) shape"

definition wrongPrimitiveType :: "zod_object \<Rightarrow> json \<Rightarrow> bool" where
  "wrongPrimitiveType shape data =
     list_ex (\<lambda>(key, ty). ty \<noteq> ZOptionalAny \<and>
        (case js_field data key of JUndefined \<Rightarrow> False | JStr s \<Rightarrow> False | _ \<Rightarrow> True)) shape"

definition specInvalid :: "zod_object \<Rightarrow> json \<Rightarrow> bool" where
  "specInvalid shape data \<longleftrightarrow>
     requiredFieldMissing shape data \<or> requiredStringOutOfBounds shape data \<or>
     wrongPrimitiveType shape data"

definition fieldQualified :: "zod_object \<Rightarrow> zod_issue list \<Rightarrow> bool" where
  \<comment> \<open>every issue names one member of the schema as its path\<close>
  "fieldQualified shape issues =
     list_all (\<lambda>issue. list_ex (\<lambda>(key, ty). fst issue = [key]) shape) issues"

definition memberInvalid :: "zod_type \<Rightarrow> json \<Rightarrow> bool" where
  \<comment> \<open>the three conditions, for one member\<close>
  "memberInvalid ty v =
     ((ty = stringSchema \<and> v = JUndefined)
      \<or> (ty = stringSchema \<and> (case v of JStr s \<Rightarrow> s = [] \<or> 1000 < length s | _ \<Rightarrow> False))
      \<or> (ty \<noteq> ZOptionalAny \<and> (case v of JUndefined \<Rightarrow> False | JStr s \<Rightarrow> False | _ \<Rightarrow> True)))"

definition paramMembers :: "json \<Rightarrow> (string \<times> json) list" where
  \<comment> \<open>the members of the parameter object, none when the parameters are absent\<close>
  "paramMembers params = (case orEmptyObject params of JObj kvs \<Rightarrow> kvs | _ \<Rightarrow> [])"

section \<open>Runs of the circuit breaker\<close>

fun invocations :: "'a action list \<Rightarrow> world \<Rightarrow> world" where
  \<comment> \<open>the state after invoking \<open>execute\<close> on each unit of work in turn\<close>
  "invocations [] w = w"
| "invocations (work # works) w = invocations works (snd (execute work w))"

definition failing :: "'a action \<Rightarrow> bool" where
  \<comment> \<open>a unit of work that fails whenever it is invoked\<close>
  "failing work = (\<forall>w. isl (fst (work w)))"

definition keepsBreaker :: "'a action \<Rightarrow> bool" where
  \<comment> \<open>a unit of work that does not itself use the breaker\<close>
  "keepsBreaker work = (\<forall>w. breaker (snd (work w)) = breaker w)"

definition later :: "nat \<Rightarrow> world \<Rightarrow> world" where
  \<comment> \<open>the same state, \<open>ms\<close> milliseconds later\<close>
  "later ms w = w\<lparr>store := advance ms (store w)\<rparr>"

definition halfOpenTrial :: "world \<Rightarrow> world" where
  \<comment> \<open>the state in which \<open>execute\<close> invokes the trial work of an open breaker\<close>
  "halfOpenTrial w =
     (traced ExecuteEntered w)\<lparr>breaker := (breaker w)\<lparr>state := HalfOpen\<rparr>\<rparr>"

definition alwaysFails :: "tool_result action" where
  \<comment> \<open>a unit of work for the examples: it logs and fails\<close>
  "alwaysFails w = (Inl (Error ''unavailable''), w\<lparr>store := logInfo ''trying'' (store w)\<rparr>)"

definition alwaysSucceeds :: "tool_result action" where
  "alwaysSucceeds w = (Inr (Payload (Content ''ok'')), w\<lparr>store := logInfo ''trying'' (store w)\<rparr>)"

section \<open>Observations on the dispatcher\<close>

definition admitted :: "world \<Rightarrow> bool" where
  \<comment> \<open>the breaker lets an invocation through\<close>
  "admitted w \<longleftrightarrow> \<not> (state (breaker w) = Open \<and> \<not> cooldownElapsed w)"

definition entered :: "world \<Rightarrow> world" where
  \<comment> \<open>the state in which \<open>execute\<close> invokes the work it lets through\<close>
  "entered w = (if state (breaker w) = Open then halfOpenTrial w else traced ExecuteEntered w)"

fun isErrorEntry :: "log_entry \<Rightarrow> bool" where
  "isErrorEntry (LogError msg e) = True"
| "isErrorEntry entry = False"

definition errorLogs :: "world \<Rightarrow> log_entry list" where
  \<comment> \<open>the entries written by \<open>logError\<close>, in order\<close>
  "errorLogs w = filter isErrorEntry (logs (store w))"

definition quietHandler :: "(json \<Rightarrow> 'a action) \<Rightarrow> bool" where
  \<comment> \<open>a handler that does not itself write error entries, as the handlers of the server,
      which call \<open>logInfo\<close> only\<close>
  "quietHandler handler = (\<forall>v u. errorLogs (snd (handler v u)) = errorLogs u)"

definition newCalls :: "world \<Rightarrow> world \<Rightarrow> call list" where
  \<comment> \<open>what a request added to the trace\<close>
  "newCalls before after = drop (length (trace before)) (trace after)"

definition unavailable :: handler where
  \<comment> \<open>a handler for the examples\<close>
  "unavailable params s = (Inl (Error ''unavailable''), s)"

definition exampleRegistry :: registry where
  \<comment> \<open>a registry for the examples: the handlers that are parameters of the model fail\<close>
  "exampleRegistry =
     \<lparr>handleGetHook = unavailable, handleListHooks = unavailable,
      handleGetType = unavailable, handleListTypes = unavailable,
      handleGetUtility = unavailable, handleListUtilities = unavailable,
      handleGetExample = unavailable, handleGetDocs = unavailable,
      inheritedCall = (\<lambda>key v. Inl (TypeError ''handler is not a function''))\<rparr>"

definition quietOnStore :: "handler \<Rightarrow> bool" where
  \<comment> \<open>a tool handler that writes no error entries\<close>
  "quietOnStore h =
     (\<forall>p s. filter isErrorEntry (logs (snd (h p s))) = filter isErrorEntry (logs s))"

definition quietRegistry :: "registry \<Rightarrow> bool" where
  "quietRegistry reg \<longleftrightarrow>
     quietOnStore (handleGetHook reg) \<and> quietOnStore (handleListHooks reg) \<and>
     quietOnStore (handleGetType reg) \<and> quietOnStore (handleListTypes reg) \<and>
     quietOnStore (handleGetUtility reg) \<and> quietOnStore (handleListUtilities reg) \<and>
     quietOnStore (handleGetExample reg) \<and> quietOnStore (handleGetDocs reg)"

section \<open>Example search in the words of the specification\<close>








section \<open>Properties of the string operations\<close>



lemma splitFrom_no_space:
  "\<forall>c\<in>set cur. \<not> isSpace c \<Longrightarrow> t \<in> set (splitFrom skip cur s) \<Longrightarrow> c \<in> set t \<Longrightarrow> \<not> isSpace c"
  by (induction skip cur s arbitrary: t rule: splitFrom.induct) (auto split: if_splits)

lemma splitWs_no_space: "t \<in> set (splitWs s) \<Longrightarrow> c \<in> set t \<Longrightarrow> \<not> isSpace c"
  unfolding splitWs_def using splitFrom_no_space [of "[]"] by simp

lemma splitFrom_concat:
  "concat (splitFrom skip cur s) = rev cur @ filter (\<lambda>c. \<not> isSpace c) s"
  by (induction skip cur s rule: splitFrom.induct) auto

lemma splitWs_concat: "concat (splitWs s) = filter (\<lambda>c. \<not> isSpace c) s"
  by (simp add: splitWs_def splitFrom_concat)

subsection \<open>The whitespace-separated terms of a string\<close>









subsection \<open>The lines of a text\<close>



















section \<open>Example search\<close>









section \<open>Validation\<close>

lemma methodSchemas_types:
  assumes "map_of methodSchemas method = Some shape" and "(key, ty) \<in> set shape"
  shows "ty = stringSchema \<or> ty = ZOptionalString \<or> ty = ZOptionalAny"
proof -
  have "\<forall>(m, sh)\<in>set methodSchemas. \<forall>(k, t)\<in>set sh.
          t = stringSchema \<or> t = ZOptionalString \<or> t = ZOptionalAny"
    by (simp add: methodSchemas_def optionalStringSchema_def)
  moreover from assms(1) have "(method, shape) \<in> set methodSchemas"
    by (rule map_of_SomeD)
  ultimately show ?thesis using assms(2) by fastforce
qed

lemma checkMember_empty_iff:
  assumes "ty = stringSchema \<or> ty = ZOptionalString \<or> ty = ZOptionalAny"
  shows "checkMember ty v = [] \<longleftrightarrow> \<not> memberInvalid ty v"
  using assms by (cases v) (auto simp: memberInvalid_def stringSchema_def invalidType_def)

lemma specInvalid_iff:
  "specInvalid shape data \<longleftrightarrow> list_ex (\<lambda>(key, ty). memberInvalid ty (js_field data key)) shape"
  unfolding specInvalid_def requiredFieldMissing_def requiredStringOutOfBounds_def
    wrongPrimitiveType_def list_ex_iff memberInvalid_def case_prod_beta
  by blast

lemma memberIssues_empty_iff:
  assumes "\<forall>(key, ty)\<in>set shape. ty = stringSchema \<or> ty = ZOptionalString \<or> ty = ZOptionalAny"
  shows "memberIssues shape data = [] \<longleftrightarrow> \<not> specInvalid shape data"
  using assms
  unfolding specInvalid_iff memberIssues_def list_ex_iff case_prod_beta
  by (auto simp: checkMember_empty_iff)

lemma memberIssues_fieldQualified: "fieldQualified shape (memberIssues shape data)"
  unfolding fieldQualified_def memberIssues_def list_all_iff list_ex_iff case_prod_beta
  by auto

lemma orEmptyObject_members:
  assumes "params = JObj kvs \<or> \<not> truthy params"
  shows "orEmptyObject params = JObj (paramMembers params)"
  using assms by (auto simp: orEmptyObject_def paramMembers_def)

lemma validate_unknown_method:
  assumes "map_of methodSchemas method = None" and "method \<notin> set objectPrototypeKeys"
  shows "validateAndSanitizeParams method params s =
           (Inr (orEmptyObject params),
            logWarning (''No validation schema found for method: '' @ method) s)"
  using assms by (simp add: validateAndSanitizeParams_def js_get_def)

lemma validate_non_object:
  assumes "map_of methodSchemas method = Some shape" and "truthy params"
    and "\<forall>kvs. params \<noteq> JObj kvs"
  shows "validateAndSanitizeParams method params s =
           (Inl (Error (validationMessage method [([], invalidType ''object'' params)])), s)"
  using assms
  by (cases params) (simp_all add: validateAndSanitizeParams_def js_get_def orEmptyObject_def)

text \<open>
  Claim C6, at a method name that has no entry in the schema table. The name
  \<open>constructor\<close> has no rule of its own, yet \<open>methodSchemas[method]\<close> finds the member that
  the table inherits from \<open>Object.prototype\<close>; it is truthy, so the pass-through branch
  is not taken, and \<open>schema.parse\<close> raises a \<open>TypeError\<close>, which is thrown to the caller.
  No warning is logged and no parameters are returned.
\<close>

theorem validate_inherited_method_throws:
  "map_of methodSchemas ''constructor'' = None
   \<and> validateAndSanitizeParams ''constructor'' (JObj []) s
       = (Inl (TypeError ''schema.parse is not a function''), s)"
  by (simp add: validateAndSanitizeParams_def js_get_def methodSchemas_def objectPrototypeKeys_def)

text \<open>
  Claim C7. For a method that has a validation rule and parameters that are an object (or
  absent), \<open>validateAndSanitizeParams\<close> throws exactly when the specification's conditions
  hold: a required member is missing, a required string is empty or longer than 1000
  characters, or a string-typed member holds a value of another type. The error then
  carries the message \<open>Validation failed for <method>: <member>: <reason>, ...\<close> with at
  least one issue, each under the name of a member of the schema. Otherwise the call
  returns the parameters normalized: the members the schema names, the others dropped;
  the store is unchanged either way.
\<close>

theorem validateAndSanitizeParams_rule:
  assumes "map_of methodSchemas method = Some shape"
    and "params = JObj kvs \<or> \<not> truthy params"
  shows "(specInvalid shape (JObj (paramMembers params)) \<longrightarrow>
            memberIssues shape (JObj (paramMembers params)) \<noteq> [] \<and>
            fieldQualified shape (memberIssues shape (JObj (paramMembers params))) \<and>
            validateAndSanitizeParams method params s =
              (Inl (Error (validationMessage method
                 (memberIssues shape (JObj (paramMembers params))))), s))
       \<and> (\<not> specInvalid shape (JObj (paramMembers params)) \<longrightarrow>
            validateAndSanitizeParams method params s =
              (Inr (JObj (stripUnknown shape (paramMembers params))), s))"
proof -
  have types: "\<forall>(key, ty)\<in>set shape. ty = stringSchema \<or> ty = ZOptionalString \<or> ty = ZOptionalAny"
    using methodSchemas_types [OF assms(1)] by auto
  have data: "orEmptyObject params = JObj (paramMembers params)"
    using assms(2) by (rule orEmptyObject_members)
  have own: "js_get methodSchemas method = Own shape"
    using assms(1) by (simp add: js_get_def)
  have empty: "memberIssues shape (JObj (paramMembers params)) = []
                 \<longleftrightarrow> \<not> specInvalid shape (JObj (paramMembers params))"
    using types by (rule memberIssues_empty_iff)
  show ?thesis
    using empty memberIssues_fieldQualified [of shape "JObj (paramMembers params)"]
    by (simp add: validateAndSanitizeParams_def own data)
qed

theorem validateAndSanitizeParams_rule_witness:
  "map_of methodSchemas ''get_react_flow_component'' = Some [(''componentName'', stringSchema)]
   \<and> specInvalid [(''componentName'', stringSchema)]
        (JObj (paramMembers (JObj [(''componentName'', JStr '''')])))
   \<and> validateAndSanitizeParams ''get_react_flow_component''
        (JObj [(''componentName'', JStr '''')]) (store (startWorld 5 60000 0))
       = (Inl (Error (''Validation failed for get_react_flow_component: '' @
                      ''componentName: String must contain at least 1 character(s)'')),
          store (startWorld 5 60000 0))
   \<and> \<not> specInvalid [(''componentName'', stringSchema)]
        (JObj (paramMembers (JObj [(''componentName'', JStr ''Handle''), (''extra'', JNull)])))
   \<and> validateAndSanitizeParams ''get_react_flow_component''
        (JObj [(''componentName'', JStr ''Handle''), (''extra'', JNull)]) (store (startWorld 5 60000 0))
       = (Inr (JObj [(''componentName'', JStr ''Handle'')]), store (startWorld 5 60000 0))"
proof -
  have rule: "map_of methodSchemas ''get_react_flow_component'' = Some [(''componentName'', stringSchema)]"
    by (simp add: methodSchemas_def)
  have bad: "specInvalid [(''componentName'', stringSchema)]
               (JObj (paramMembers (JObj [(''componentName'', JStr '''')])))"
    by (simp add: specInvalid_def requiredStringOutOfBounds_def paramMembers_def orEmptyObject_def)
  have good: "\<not> specInvalid [(''componentName'', stringSchema)]
               (JObj (paramMembers (JObj [(''componentName'', JStr ''Handle''), (''extra'', JNull)])))"
    by (simp add: specInvalid_def requiredStringOutOfBounds_def requiredFieldMissing_def
        wrongPrimitiveType_def paramMembers_def orEmptyObject_def stringSchema_def)
  have issues: "validationMessage ''get_react_flow_component''
                  (memberIssues [(''componentName'', stringSchema)]
                     (JObj (paramMembers (JObj [(''componentName'', JStr '''')]))))
                = ''Validation failed for get_react_flow_component: '' @
                  ''componentName: String must contain at least 1 character(s)''"
    by (simp add: validationMessage_def memberIssues_def paramMembers_def orEmptyObject_def
        stringSchema_def issueText_def showNat.simps digitChar_def)
  have strip: "stripUnknown [(''componentName'', stringSchema)]
                 (paramMembers (JObj [(''componentName'', JStr ''Handle''), (''extra'', JNull)]))
               = [(''componentName'', JStr ''Handle'')]"
    by (simp add: stripUnknown_def paramMembers_def orEmptyObject_def)
  from validateAndSanitizeParams_rule [OF rule, of "JObj [(''componentName'', JStr '''')]"
      "[(''componentName'', JStr '''')]" "store (startWorld 5 60000 0)"] bad
  have r1: "validateAndSanitizeParams ''get_react_flow_component''
        (JObj [(''componentName'', JStr '''')]) (store (startWorld 5 60000 0))
       = (Inl (Error (''Validation failed for get_react_flow_component: '' @
                      ''componentName: String must contain at least 1 character(s)'')),
          store (startWorld 5 60000 0))"
    by (simp only: issues) simp
  from validateAndSanitizeParams_rule [OF rule,
      of "JObj [(''componentName'', JStr ''Handle''), (''extra'', JNull)]"
      "[(''componentName'', JStr ''Handle''), (''extra'', JNull)]" "store (startWorld 5 60000 0)"] good
  have r2: "validateAndSanitizeParams ''get_react_flow_component''
        (JObj [(''componentName'', JStr ''Handle''), (''extra'', JNull)]) (store (startWorld 5 60000 0))
       = (Inr (JObj [(''componentName'', JStr ''Handle'')]), store (startWorld 5 60000 0))"
    by (simp only: strip) simp
  from rule bad good r1 r2 show ?thesis by blast
qed

section \<open>The cache\<close>

lemma cache_get_after_set:
  "0 < ttl \<Longrightarrow> cache_get k (cache_set k v ttl s) = (Some v, cache_set k v ttl s)"
  by (simp add: cache_get_def cache_set_def)

lemma cache_get_expired:
  "ttl \<le> d \<Longrightarrow> cache_get k (advance d (cache_set k v ttl s)) = (None, advance d (cache_set k v ttl s))"
  by (simp add: cache_get_def cache_set_def advance_def)

lemma cache_get_never_set: "cache s k = None \<Longrightarrow> cache_get k s = (None, s)"
  by (simp add: cache_get_def)

text \<open>
  Claim C5, on the cache as the specification describes it. After \<open>set(k, v, ttl)\<close> with a
  positive \<open>ttl\<close>, an immediate \<open>get(k)\<close> returns \<open>v\<close>; once \<open>ttl\<close> milliseconds or more
  have passed, \<open>get(k)\<close> returns absent; and \<open>get\<close> of a key that was never set returns
  absent and leaves the store as it was.
\<close>

theorem cache_ttl:
  assumes "0 < ttl"
  shows "cache_get k (cache_set k v ttl s) = (Some v, cache_set k v ttl s)
       \<and> (ttl \<le> d \<longrightarrow> fst (cache_get k (advance d (cache_set k v ttl s))) = None)
       \<and> (cache s k = None \<longrightarrow> cache_get k s = (None, s))"
  using assms by (simp add: cache_get_after_set cache_get_expired cache_get_never_set)

theorem cache_ttl_witness:
  "cache_get ''k'' (cache_set ''k'' (Content ''v'') 1800000 (store (startWorld 5 60000 0)))
     = (Some (Content ''v''), cache_set ''k'' (Content ''v'') 1800000 (store (startWorld 5 60000 0)))
   \<and> fst (cache_get ''k'' (advance 1800001
            (cache_set ''k'' (Content ''v'') 1800000 (store (startWorld 5 60000 0))))) = None
   \<and> cache (store (startWorld 5 60000 0)) ''k'' = None
   \<and> cache_get ''k'' (store (startWorld 5 60000 0)) = (None, store (startWorld 5 60000 0))"
proof -
  have pos: "0 < (1800000::nat)" by simp
  have past: "(1800000::nat) \<le> 1800001" by simp
  have never: "cache (store (startWorld 5 60000 0)) ''k'' = None"
    by (simp add: startWorld_def)
  from cache_ttl [OF pos, of "''k''" "Content ''v''" "store (startWorld 5 60000 0)" 1800001] past never
  show ?thesis by blast
qed

section \<open>The circuit breaker\<close>

lemma traced_simps [simp]:
  "breaker (traced c w) = breaker w"
  "store (traced c w) = store w"
  "trace (traced c w) = trace w @ [c]"
  by (simp_all add: traced_def)

lemma cooldownElapsed_traced [simp]: "cooldownElapsed (traced c w) = cooldownElapsed w"
  by (simp add: cooldownElapsed_def split: option.splits)

lemma store_onFailure [simp]: "store (onFailure w) = store w"
  by (simp add: onFailure_def Let_def split: circuit_state.splits)

lemma store_onSuccess [simp]: "store (onSuccess w) = store w"
  by (simp add: onSuccess_def)

lemma execute_open_rejects:
  assumes "state (breaker w) = Open" and "\<not> cooldownElapsed w"
  shows "execute work w = (Inl CircuitOpenError, traced ExecuteLeft (traced ExecuteEntered w))"
  using assms by (simp add: execute_def Let_def)

lemma execute_closed:
  assumes "state (breaker w) = Closed"
  shows "execute work w =
           (case work (traced ExecuteEntered w) of
              (Inr v, w2) \<Rightarrow> (Inr v, traced ExecuteLeft (onSuccess w2))
            | (Inl e, w2) \<Rightarrow> (Inl e, traced ExecuteLeft (onFailure w2)))"
  using assms by (simp add: execute_def Let_def)

lemma execute_trial:
  assumes "state (breaker w) = Open" and "cooldownElapsed w"
  shows "execute work w =
           (case work (halfOpenTrial w) of
              (Inr v, w2) \<Rightarrow> (Inr v, traced ExecuteLeft (onSuccess w2))
            | (Inl e, w2) \<Rightarrow> (Inl e, traced ExecuteLeft (onFailure w2)))"
  using assms by (simp add: execute_def halfOpenTrial_def Let_def)

lemma failing_step_closed:
  assumes "failing work" and "keepsBreaker work" and "state (breaker w) = Closed"
  shows "breaker (snd (execute work w)) = breaker (onFailure (snd (work (traced ExecuteEntered w))))"
    and "store (snd (execute work w)) = store (snd (work (traced ExecuteEntered w)))"
proof -
  obtain r w2 where run: "work (traced ExecuteEntered w) = (r, w2)" by (cases "work (traced ExecuteEntered w)")
  with assms(1) obtain e where "r = Inl e" unfolding failing_def by (metis fst_conv isl_def)
  with run assms(3) have ex: "execute work w = (Inl e, traced ExecuteLeft (onFailure w2))"
    by (simp add: execute_closed)
  show "breaker (snd (execute work w)) = breaker (onFailure (snd (work (traced ExecuteEntered w))))"
    by (simp add: ex run)
  show "store (snd (execute work w)) = store (snd (work (traced ExecuteEntered w)))"
    by (simp add: ex run)
qed

lemma failing_run_opens:
  assumes "\<forall>work\<in>set works. failing work \<and> keepsBreaker work"
    and "state (breaker w) = Closed"
    and "consecutiveFailures (breaker w) + length works = failureThreshold (breaker w)"
    and "works \<noteq> []"
  shows "breaker (invocations works w) =
           (breaker w)\<lparr>state := Open, consecutiveFailures := failureThreshold (breaker w),
                        lastFailureTime := Some (clock (store (invocations works w)))\<rparr>"
  using assms
proof (induction works arbitrary: w)
  case Nil
  then show ?case by simp
next
  case (Cons work rest)
  let ?w2 = "snd (work (traced ExecuteEntered w))"
  let ?w' = "snd (execute work w)"
  from Cons.prems have fw: "failing work" and kw: "keepsBreaker work" by simp_all
  have b2: "breaker ?w2 = breaker w"
    using kw by (simp add: keepsBreaker_def)
  have bre: "breaker ?w' = breaker (onFailure ?w2)" and sto: "store ?w' = store ?w2"
    using failing_step_closed [OF fw kw Cons.prems(2)] by simp_all
  show ?case
  proof (cases rest)
    case Nil
    with Cons.prems(3) have "failureThreshold (breaker w) = consecutiveFailures (breaker w) + 1" by simp
    then have "breaker (onFailure ?w2) =
        (breaker w)\<lparr>state := Open, consecutiveFailures := failureThreshold (breaker w),
                        lastFailureTime := Some (clock (store ?w2))\<rparr>"
      using Cons.prems(2) b2 by (simp add: onFailure_def Let_def)
    with Nil bre sto show ?thesis by simp
  next
    case (Cons work' rest')
    with Cons.prems(3) have lt: "consecutiveFailures (breaker w) + 1 < failureThreshold (breaker w)" by simp
    then have step: "breaker (onFailure ?w2) = (breaker w)\<lparr>consecutiveFailures := consecutiveFailures (breaker w) + 1\<rparr>"
      using Cons.prems(2) b2 by (simp add: onFailure_def Let_def)
    have "breaker (invocations rest ?w') =
           (breaker ?w')\<lparr>state := Open, consecutiveFailures := failureThreshold (breaker ?w'),
                        lastFailureTime := Some (clock (store (invocations rest ?w')))\<rparr>"
    proof (rule Cons.IH)
      show "\<forall>work\<in>set rest. failing work \<and> keepsBreaker work" using Cons.prems(1) by simp
      show "state (breaker ?w') = Closed" using bre step Cons.prems(2) by simp
      show "consecutiveFailures (breaker ?w') + length rest = failureThreshold (breaker ?w')"
        using bre step Cons.prems(3) by simp
      show "rest \<noteq> []" using Cons by simp
    qed
    then show ?thesis using bre step by simp
  qed
qed


lemma cooldownElapsed_later:
  assumes "lastFailureTime (breaker w) = Some (clock (store w))"
  shows "cooldownElapsed (later d w) \<longleftrightarrow> resetTimeoutMs (breaker w) \<le> d"
  using assms by (simp add: cooldownElapsed_def later_def advance_def)

lemma breaker_later [simp]: "breaker (later d w) = breaker w"
  by (simp add: later_def)

lemma trial_outcome:
  assumes "state (breaker u) = Open" and "cooldownElapsed u" and "keepsBreaker work"
  shows "fst (execute work u) = fst (work (halfOpenTrial u))
       \<and> state (breaker (halfOpenTrial u)) = HalfOpen
       \<and> (if isl (fst (execute work u))
          then state (breaker (snd (execute work u))) = Open
          else state (breaker (snd (execute work u))) = Closed
             \<and> consecutiveFailures (breaker (snd (execute work u))) = 0)"
proof -
  obtain r w2 where run: "work (halfOpenTrial u) = (r, w2)" by (cases "work (halfOpenTrial u)")
  have half: "state (breaker (halfOpenTrial u)) = HalfOpen"
    by (simp add: halfOpenTrial_def)
  from assms(3) run have "breaker w2 = breaker (halfOpenTrial u)"
    unfolding keepsBreaker_def by (metis snd_conv)
  with half have s2: "state (breaker w2) = HalfOpen" by simp
  show ?thesis
  proof (cases r)
    case (Inl e)
    with run have "execute work u = (Inl e, traced ExecuteLeft (onFailure w2))"
      using assms(1,2) by (simp add: execute_trial)
    moreover have "state (breaker (onFailure w2)) = Open"
      using s2 by (simp add: onFailure_def)
    ultimately show ?thesis using run Inl half by simp
  next
    case (Inr v)
    with run have "execute work u = (Inr v, traced ExecuteLeft (onSuccess w2))"
      using assms(1,2) by (simp add: execute_trial)
    then show ?thesis using run Inr half by (simp add: onSuccess_def)
  qed
qed

text \<open>
  Claim C4, on the circuit breaker as the specification describes it. From a closed breaker
  with no failure counted and \<open>failureThreshold = N > 0\<close>, after \<open>N\<close> invocations of work that
  fails the breaker is open. An invocation that comes less than \<open>resetTimeoutMs = T\<close>
  milliseconds later is rejected with \<open>CircuitOpenError\<close>, and the state it leaves is the
  same for every work: the work is not invoked. An invocation that comes \<open>T\<close> milliseconds
  later or more is let through as a trial, run with the breaker half-open; if it succeeds
  the breaker is closed with \<open>consecutiveFailures = 0\<close>, if it fails the breaker is open
  again.
\<close>

theorem breaker_state_machine:
  assumes "state (breaker w) = Closed" and "consecutiveFailures (breaker w) = 0"
    and "failureThreshold (breaker w) = N" and "0 < N" and "resetTimeoutMs (breaker w) = T"
    and "length works = N" and "\<forall>work\<in>set works. failing work \<and> keepsBreaker work"
  shows "state (breaker (invocations works w)) = Open
       \<and> (d < T \<longrightarrow>
            execute trial (later d (invocations works w)) =
              (Inl CircuitOpenError,
               traced ExecuteLeft (traced ExecuteEntered (later d (invocations works w)))))
       \<and> (T \<le> d \<and> keepsBreaker trial \<longrightarrow>
            fst (execute trial (later d (invocations works w)))
              = fst (trial (halfOpenTrial (later d (invocations works w))))
            \<and> state (breaker (halfOpenTrial (later d (invocations works w)))) = HalfOpen
            \<and> (if isl (fst (execute trial (later d (invocations works w))))
               then state (breaker (snd (execute trial (later d (invocations works w))))) = Open
               else state (breaker (snd (execute trial (later d (invocations works w))))) = Closed
                  \<and> consecutiveFailures
                      (breaker (snd (execute trial (later d (invocations works w))))) = 0))"
proof -
  let ?w = "invocations works w"
  from assms have ne: "works \<noteq> []" by auto
  have opened: "breaker ?w =
      (breaker w)\<lparr>state := Open, consecutiveFailures := failureThreshold (breaker w),
                   lastFailureTime := Some (clock (store ?w))\<rparr>"
    using assms(2,3,6) by (intro failing_run_opens [OF assms(7) assms(1) _ ne]) simp
  then have st: "state (breaker ?w) = Open"
    and lf: "lastFailureTime (breaker ?w) = Some (clock (store ?w))"
    and to: "resetTimeoutMs (breaker ?w) = T"
    using assms(5) by simp_all
  have cool: "cooldownElapsed (later d ?w) \<longleftrightarrow> T \<le> d"
    using cooldownElapsed_later [OF lf] to by simp
  have reject: "d < T \<longrightarrow>
      execute trial (later d ?w) =
        (Inl CircuitOpenError, traced ExecuteLeft (traced ExecuteEntered (later d ?w)))"
    using cool st by (auto intro: execute_open_rejects)
  have through: "T \<le> d \<and> keepsBreaker trial \<longrightarrow>
            fst (execute trial (later d ?w)) = fst (trial (halfOpenTrial (later d ?w)))
            \<and> state (breaker (halfOpenTrial (later d ?w))) = HalfOpen
            \<and> (if isl (fst (execute trial (later d ?w)))
               then state (breaker (snd (execute trial (later d ?w)))) = Open
               else state (breaker (snd (execute trial (later d ?w)))) = Closed
                  \<and> consecutiveFailures (breaker (snd (execute trial (later d ?w)))) = 0)"
  proof
    assume a: "T \<le> d \<and> keepsBreaker trial"
    have "state (breaker (later d ?w)) = Open" using st by simp
    moreover have "cooldownElapsed (later d ?w)" using a cool by simp
    ultimately show "fst (execute trial (later d ?w)) = fst (trial (halfOpenTrial (later d ?w)))
            \<and> state (breaker (halfOpenTrial (later d ?w))) = HalfOpen
            \<and> (if isl (fst (execute trial (later d ?w)))
               then state (breaker (snd (execute trial (later d ?w)))) = Open
               else state (breaker (snd (execute trial (later d ?w)))) = Closed
                  \<and> consecutiveFailures (breaker (snd (execute trial (later d ?w)))) = 0)"
      using a by (intro trial_outcome) simp_all
  qed
  from st reject through show ?thesis by blast
qed

lemma failing_alwaysFails: "failing alwaysFails"
  by (simp add: failing_def alwaysFails_def)
lemma keepsBreaker_alwaysFails: "keepsBreaker alwaysFails"
  by (simp add: keepsBreaker_def alwaysFails_def)
lemma keepsBreaker_alwaysSucceeds: "keepsBreaker alwaysSucceeds"
  by (simp add: keepsBreaker_def alwaysSucceeds_def)

theorem breaker_state_machine_witness:
  "state (breaker (invocations [alwaysFails, alwaysFails] (startWorld 2 1000 0))) = Open
   \<and> execute alwaysSucceeds (later 999 (invocations [alwaysFails, alwaysFails] (startWorld 2 1000 0)))
       = (Inl CircuitOpenError,
          traced ExecuteLeft (traced ExecuteEntered
            (later 999 (invocations [alwaysFails, alwaysFails] (startWorld 2 1000 0)))))
   \<and> fst (execute alwaysSucceeds
            (later 1000 (invocations [alwaysFails, alwaysFails] (startWorld 2 1000 0))))
       = Inr (Payload (Content ''ok''))
   \<and> state (breaker (snd (execute alwaysSucceeds
            (later 1000 (invocations [alwaysFails, alwaysFails] (startWorld 2 1000 0)))))) = Closed
   \<and> consecutiveFailures (breaker (snd (execute alwaysSucceeds
            (later 1000 (invocations [alwaysFails, alwaysFails] (startWorld 2 1000 0)))))) = 0
   \<and> fst (execute alwaysFails
            (later 1000 (invocations [alwaysFails, alwaysFails] (startWorld 2 1000 0))))
       = Inl (Error ''unavailable'')
   \<and> state (breaker (snd (execute alwaysFails
            (later 1000 (invocations [alwaysFails, alwaysFails] (startWorld 2 1000 0)))))) = Open"
proof -
  let ?w0 = "startWorld 2 1000 0"
  let ?ws = "[alwaysFails, alwaysFails]"
  have h1: "state (breaker ?w0) = Closed" and h2: "consecutiveFailures (breaker ?w0) = 0"
    and h3: "failureThreshold (breaker ?w0) = 2" and h4: "0 < (2::nat)"
    and h5: "resetTimeoutMs (breaker ?w0) = 1000" and h6: "length ?ws = 2"
    by (simp_all add: startWorld_def newBreaker_def)
  have h7: "\<forall>work\<in>set ?ws. failing work \<and> keepsBreaker work"
    by (simp add: failing_alwaysFails keepsBreaker_alwaysFails)
  note sm = breaker_state_machine [OF h1 h2 h3 h4 h5 h6 h7]
  have a: "state (breaker (invocations ?ws ?w0)) = Open"
    using sm [of 0 alwaysFails] by blast
  have b: "execute alwaysSucceeds (later 999 (invocations ?ws ?w0))
       = (Inl CircuitOpenError,
          traced ExecuteLeft (traced ExecuteEntered (later 999 (invocations ?ws ?w0))))"
    using sm [of 999 alwaysSucceeds] less_add_one [of "999::nat"] by simp
  define u where "u = later 1000 (invocations ?ws ?w0)"
  have ok: "fst (alwaysSucceeds (halfOpenTrial u)) = Inr (Payload (Content ''ok''))"
    by (simp add: alwaysSucceeds_def)
  have ko: "fst (alwaysFails (halfOpenTrial u)) = Inl (Error ''unavailable'')"
    by (simp add: alwaysFails_def)
  have "fst (execute alwaysSucceeds u) = fst (alwaysSucceeds (halfOpenTrial u))
      \<and> (if isl (fst (execute alwaysSucceeds u))
         then state (breaker (snd (execute alwaysSucceeds u))) = Open
         else state (breaker (snd (execute alwaysSucceeds u))) = Closed
            \<and> consecutiveFailures (breaker (snd (execute alwaysSucceeds u))) = 0)"
    unfolding u_def using sm [of 1000 alwaysSucceeds] keepsBreaker_alwaysSucceeds le_refl [of "1000::nat"]
    by blast
  then have c: "fst (execute alwaysSucceeds u) = Inr (Payload (Content ''ok''))
     \<and> state (breaker (snd (execute alwaysSucceeds u))) = Closed
     \<and> consecutiveFailures (breaker (snd (execute alwaysSucceeds u))) = 0"
    by (simp add: ok)
  have "fst (execute alwaysFails u) = fst (alwaysFails (halfOpenTrial u))
      \<and> (if isl (fst (execute alwaysFails u))
         then state (breaker (snd (execute alwaysFails u))) = Open
         else state (breaker (snd (execute alwaysFails u))) = Closed
            \<and> consecutiveFailures (breaker (snd (execute alwaysFails u))) = 0)"
    unfolding u_def using sm [of 1000 alwaysFails] keepsBreaker_alwaysFails le_refl [of "1000::nat"]
    by blast
  then have d: "fst (execute alwaysFails u) = Inl (Error ''unavailable'')
     \<and> state (breaker (snd (execute alwaysFails u))) = Open"
    by (simp add: ko)
  from a b c d show ?thesis unfolding u_def by blast
qed

section \<open>Component lookup\<close>

lemma normalize_examples:
  "normalizeComponentName ''ReactFlow'' = ''reactflow''"
  "normalizeComponentName ''reactflow'' = ''reactflow''"
  "normalizeComponentName ''<ReactFlow />'' = ''reactflow''"
  by (simp_all add: normalizeComponentName_def toLowerCase_def lowerChar_def upperLetters_def
      lowerLetters_def isSpace_def)

lemma normalize_no_break_space:
  "normalizeComponentName ''Handle'' = ''handle''"
  "normalizeComponentName (''<Handle'' @ [CHR 0xA0] @ ''/>'') = ''handle''"
  by (simp_all add: normalizeComponentName_def toLowerCase_def lowerChar_def upperLetters_def
      lowerLetters_def isSpace_def)

lemma toLowerCase_latin1:
  "toLowerCase [CHR 0xC9, CHR 0xD7, CHR 0xDE, CHR 0xDF, CHR 0xFF] =
     [CHR 0xE9, CHR 0xD7, CHR 0xFE, CHR 0xDF, CHR 0xFF]"
  by (simp add: toLowerCase_def lowerChar_def upperLetters_def lowerLetters_def)

lemma components_reactflow: "map_of components ''reactflow'' = Some component_reactflow"
  by (simp add: components_def)

lemma components_handle: "map_of components ''handle'' = Some component_handle"
  by (simp add: components_def)

lemma component_names:
  "map (\<lambda>(k, c). comp_name c) components =
     [''<ReactFlow />'', ''<ReactFlowProvider />'', ''<Background />'', ''<Controls />'',
      ''<MiniMap />'', ''<Panel />'', ''<Handle />'', ''<BaseEdge />'', ''<EdgeLabelRenderer />'',
      ''<NodeResizer />'', ''<NodeToolbar />'', ''<ViewportPortal />'', ''<ControlButton />'']"
  by (simp add: components_def component_reactflow_def component_reactflowprovider_def
      component_background_def component_controls_def component_minimap_def component_panel_def
      component_handle_def component_baseedge_def component_edgelabelrenderer_def
      component_noderesizer_def component_nodetoolbar_def component_viewportportal_def
      component_controlbutton_def)

lemma getComponentInfo_not_found:
  assumes "map_of components (normalizeComponentName n) = None"
    and "normalizeComponentName n \<notin> set objectPrototypeKeys"
  shows "getComponentInfo n = Content (componentNotFound n)"
  using assms by (simp add: getComponentInfo_def js_get_def)

lemma getComponentInfo_empty_name:
  "getComponentInfo [] =
     Content (''Component '' @ dq @ dq @ '' not found. Available components: '' @
       ''<ReactFlow />, <ReactFlowProvider />, <Background />, <Controls />, <MiniMap />, '' @
       ''<Panel />, <Handle />, <BaseEdge />, <EdgeLabelRenderer />, <NodeResizer />, '' @
       ''<NodeToolbar />, <ViewportPortal />, <ControlButton />'')"
proof -
  have "normalizeComponentName [] = []"
    by (simp add: normalizeComponentName_def toLowerCase_def)
  moreover have "map_of components [] = None"
    by (simp add: components_def)
  moreover have "[] \<notin> set objectPrototypeKeys"
    by (simp add: objectPrototypeKeys_def)
  ultimately have "getComponentInfo [] = Content (componentNotFound [])"
    by (simp add: getComponentInfo_not_found)
  then show ?thesis
    by (simp add: componentNotFound_def component_names)
qed

lemma getComponentInfo_handle:
  "getComponentInfo ''Handle'' = Content (renderComponent component_handle)"
proof -
  have "normalizeComponentName ''Handle'' = ''handle''"
    by (simp add: normalizeComponentName_def toLowerCase_def lowerChar_def upperLetters_def
        lowerLetters_def isSpace_def)
  then show ?thesis
    by (simp add: getComponentInfo_def js_get_def components_handle)
qed

lemma handleGetComponent_fresh:
  assumes "cache s = Map.empty"
  shows "fst (handleGetComponent (JObj [(''componentName'', JStr n)]) s) = Inr (getComponentInfo n)"
  using assms by (simp add: handleGetComponent_def cache_get_def logInfo_def Let_def)

text \<open>
  Claim C9. Two component names that are equal after lowercasing and removing every
  \<open><\<close>, \<open>>\<close>, \<open>/\<close> and whitespace character, and whose normalized form is a key of the
  component table, get the same payload from \<open>getComponentInfo\<close>: the rendering of that
  component. So does \<open>handleGetComponent\<close> on a store whose cache is empty.
\<close>

theorem getComponentInfo_normalized:
  assumes "normalizeComponentName a = normalizeComponentName b"
    and "map_of components (normalizeComponentName a) = Some c"
  shows "getComponentInfo a = Content (renderComponent c)
       \<and> getComponentInfo b = getComponentInfo a
       \<and> (cache s = Map.empty \<longrightarrow>
            fst (handleGetComponent (JObj [(''componentName'', JStr b)]) s)
              = fst (handleGetComponent (JObj [(''componentName'', JStr a)]) s))"
  using assms by (simp add: getComponentInfo_def js_get_def handleGetComponent_fresh)

theorem getComponentInfo_normalized_witness:
  "normalizeComponentName ''<ReactFlow />'' = normalizeComponentName ''ReactFlow''
   \<and> normalizeComponentName ''reactflow'' = normalizeComponentName ''ReactFlow''
   \<and> map_of components (normalizeComponentName ''ReactFlow'') = Some component_reactflow
   \<and> getComponentInfo ''ReactFlow'' = Content (renderComponent component_reactflow)
   \<and> getComponentInfo ''<ReactFlow />'' = getComponentInfo ''ReactFlow''
   \<and> getComponentInfo ''reactflow'' = getComponentInfo ''ReactFlow''
   \<and> cache (store (startWorld 5 60000 0)) = Map.empty
   \<and> fst (handleGetComponent (JObj [(''componentName'', JStr ''<ReactFlow />'')])
            (store (startWorld 5 60000 0)))
       = fst (handleGetComponent (JObj [(''componentName'', JStr ''ReactFlow'')])
            (store (startWorld 5 60000 0)))
   \<and> normalizeComponentName (''<Handle'' @ [CHR 0xA0] @ ''/>'') = normalizeComponentName ''Handle''
   \<and> map_of components (normalizeComponentName ''Handle'') = Some component_handle
   \<and> getComponentInfo (''<Handle'' @ [CHR 0xA0] @ ''/>'') = getComponentInfo ''Handle''"
proof -
  have n1: "normalizeComponentName ''ReactFlow'' = normalizeComponentName ''<ReactFlow />''"
    and n2: "normalizeComponentName ''ReactFlow'' = normalizeComponentName ''reactflow''"
    by (simp_all only: normalize_examples)
  have known: "map_of components (normalizeComponentName ''ReactFlow'') = Some component_reactflow"
    by (simp only: normalize_examples components_reactflow)
  have fresh: "cache (store (startWorld 5 60000 0)) = Map.empty"
    by (simp add: startWorld_def)
  have n3: "normalizeComponentName ''Handle'' = normalizeComponentName (''<Handle'' @ [CHR 0xA0] @ ''/>'')"
    by (simp only: normalize_no_break_space)
  have known3: "map_of components (normalizeComponentName ''Handle'') = Some component_handle"
    by (simp only: normalize_no_break_space components_handle)
  from getComponentInfo_normalized [OF n1 known, of "store (startWorld 5 60000 0)"]
    getComponentInfo_normalized [OF n2 known, of "store (startWorld 5 60000 0)"]
    getComponentInfo_normalized [OF n3 known3, of "store (startWorld 5 60000 0)"]
    n1 n2 known fresh n3 known3
  show ?thesis by simp
qed

section \<open>Lookups of names that are not in a table\<close>

lemma getComponentsList_unknown:
  assumes "map_of componentCategories (toLowerCase c) = None"
    and "toLowerCase c \<notin> set objectPrototypeKeys" and "c \<noteq> []"
  shows "getComponentsList (JStr c) =
           Inr (Content (''Category '' @ dq @ c @ dq @
                  '' not found. Available categories: core, helper, node, edge''))"
  using assms by (simp add: getComponentsList_def js_get_def)

lemma getComponentsList_constructor:
  "getComponentsList (JStr ''constructor'') = Inl (TypeError ''comps.forEach is not a function'')"
  by (simp add: getComponentsList_def js_get_def componentCategories_def objectPrototypeKeys_def
      toLowerCase_def lowerChar_def upperLetters_def lowerLetters_def)

lemma getComponentInfo_constructor:
  "getComponentInfo ''constructor'' =
     Content ''# Object\<newline>\<newline>**Type:** undefined\<newline>\<newline>**Description:** undefined\<newline>\<newline>''"
  by (simp add: getComponentInfo_def js_get_def components_def objectPrototypeKeys_def
      normalizeComponentName_def isSpace_def renderInherited_def inheritedName_def
      toLowerCase_def lowerChar_def upperLetters_def lowerLetters_def)

lemma handleListComponents_constructor:
  "fst (handleListComponents (JObj [(''category'', JStr ''constructor'')]) (store (startWorld n t t0)))
     = Inl (TypeError ''comps.forEach is not a function'')"
  by (simp add: handleListComponents_def getComponentsList_constructor cache_get_def logInfo_def
      startWorld_def)

section \<open>The dispatcher\<close>

lemma trace_onFailure [simp]: "trace (onFailure w) = trace w"
  by (simp add: onFailure_def Let_def split: circuit_state.splits)

lemma trace_onSuccess [simp]: "trace (onSuccess w) = trace w"
  by (simp add: onSuccess_def)

lemma inStore_simps [simp]:
  "fst (inStore f w) = fst (f (store w))"
  "store (snd (inStore f w)) = snd (f (store w))"
  "breaker (snd (inStore f w)) = breaker w"
  "trace (snd (inStore f w)) = trace w"
  by (simp_all add: inStore_def split: prod.splits)

lemma errorLogs_simps [simp]:
  "errorLogs (traced c w) = errorLogs w"
  "errorLogs (onFailure w) = errorLogs w"
  "errorLogs (onSuccess w) = errorLogs w"
  "errorLogs (halfOpenTrial w) = errorLogs w"
  "errorLogs (w\<lparr>store := logError msg e (store w)\<rparr>) = errorLogs w @ [LogError msg e]"
  by (simp_all add: errorLogs_def halfOpenTrial_def logError_def)

lemma execute_rejected:
  assumes "\<not> admitted w"
  shows "execute work w = (Inl CircuitOpenError, traced ExecuteLeft (traced ExecuteEntered w))"
  using assms by (simp add: execute_def admitted_def Let_def)

lemma execute_admitted:
  assumes "admitted w"
  shows "execute work w =
           (case work (entered w) of
              (Inr v, w2) \<Rightarrow> (Inr v, traced ExecuteLeft (onSuccess w2))
            | (Inl e, w2) \<Rightarrow> (Inl e, traced ExecuteLeft (onFailure w2)))"
  using assms by (auto simp: execute_def admitted_def entered_def halfOpenTrial_def Let_def)

lemma entered_simps [simp]:
  "state (breaker (entered w)) \<noteq> Open"
  "trace (entered w) = trace w @ [ExecuteEntered]"
  "store (entered w) = store w"
  "errorLogs (entered w) = errorLogs w"
  by (simp_all add: entered_def halfOpenTrial_def errorLogs_def)

lemma admitted_not_open: "state (breaker w) \<noteq> Open \<Longrightarrow> admitted w"
  by (simp add: admitted_def)

lemma errorLogs_execute:
  assumes "\<And>u. errorLogs (snd (work u)) = errorLogs u"
  shows "errorLogs (snd (execute work w)) = errorLogs w"
proof (cases "admitted w")
  case False
  then show ?thesis by (simp add: execute_rejected)
next
  case True
  obtain r w2 where run: "work (entered w) = (r, w2)" by (cases "work (entered w)")
  with assms [of "entered w"] have "errorLogs w2 = errorLogs w" by simp
  with run True show ?thesis by (cases r) (simp_all add: execute_admitted)
qed

lemma validate_error_keeps_store:
  "validateAndSanitizeParams method params s = (Inl e, s') \<Longrightarrow> s' = s"
  by (auto simp: validateAndSanitizeParams_def split: property.splits sum.splits)

lemma validate_no_error_entries:
  "filter isErrorEntry (logs (snd (validateAndSanitizeParams method params s)))
     = filter isErrorEntry (logs s)"
  by (auto simp: validateAndSanitizeParams_def logWarning_def split: property.splits sum.splits)

lemma logs_cache_set [simp]: "logs (cache_set k v ttl s) = logs s"
  by (simp add: cache_set_def)

lemma cache_get_snd [simp]: "snd (cache_get k s) = s"
  by (simp add: cache_get_def split: option.splits)

lemma quiet_handleGetComponent: "quietOnStore handleGetComponent"
  unfolding quietOnStore_def
  by (auto simp: handleGetComponent_def logInfo_def Let_def cache_get_def
      split: sum.splits json.splits option.splits)

lemma quiet_handleListComponents: "quietOnStore handleListComponents"
  unfolding quietOnStore_def
  by (auto simp: handleListComponents_def logInfo_def Let_def cache_get_def
      split: sum.splits option.splits)

lemma quiet_handleSearchExamples: "quietOnStore handleSearchExamples"
  unfolding quietOnStore_def
  by (auto simp: handleSearchExamples_def logInfo_def Let_def cache_get_def
      split: sum.splits json.splits option.splits)

lemma quiet_toolHandlers:
  assumes "quietRegistry reg" and "map_of (toolHandlers reg) n = Some h"
  shows "quietOnStore h"
  using assms quiet_handleGetComponent quiet_handleListComponents quiet_handleSearchExamples
  by (auto simp: toolHandlers_def quietRegistry_def split: if_splits)

lemma errorLogs_runToolHandler:
  assumes "quietOnStore h"
  shows "errorLogs (snd (runToolHandler n h p u)) = errorLogs u"
proof -
  obtain r s2 where run: "h (orEmptyObject p) (store u) = (r, s2)"
    by (cases "h (orEmptyObject p) (store u)")
  with assms have "filter isErrorEntry (logs s2) = filter isErrorEntry (logs (store u))"
    unfolding quietOnStore_def by (metis snd_conv)
  with run show ?thesis
    by (cases r) (simp_all add: runToolHandler_def inStore_def errorLogs_def)
qed

lemma errorLogs_runInherited: "errorLogs (snd (runInherited reg k p u)) = errorLogs u"
  by (simp add: runInherited_def split: sum.splits)

lemma quiet_callTool:
  assumes "quietRegistry reg"
  shows "quietHandler (callTool reg)"
  unfolding quietHandler_def
proof (intro allI)
  fix v u
  show "errorLogs (snd (callTool reg v u)) = errorLogs u"
  proof (cases "js_field v ''name''")
    case (JStr n)
    show ?thesis
    proof (cases "js_get (toolHandlers reg) n")
      case Undefined
      with JStr show ?thesis by (simp add: callTool_def Let_def)
    next
      case (Own h)
      then have "map_of (toolHandlers reg) n = Some h"
        by (auto simp: js_get_def split: option.splits if_splits)
      then have "quietOnStore h" using assms quiet_toolHandlers by blast
      then have "errorLogs (snd (execute (runToolHandler n h (js_field v ''arguments'')) u)) = errorLogs u"
        by (intro errorLogs_execute errorLogs_runToolHandler)
      with JStr Own show ?thesis by (simp add: callTool_def Let_def)
    next
      case (Inherited k)
      have "errorLogs (snd (execute (runInherited reg k (js_field v ''arguments'')) u)) = errorLogs u"
        by (intro errorLogs_execute errorLogs_runInherited)
      with JStr Inherited show ?thesis by (simp add: callTool_def Let_def)
    qed
  qed (simp_all add: callTool_def Let_def)
qed

lemma quiet_exampleRegistry: "quietRegistry exampleRegistry"
  by (simp add: quietRegistry_def exampleRegistry_def quietOnStore_def unavailable_def)

subsection \<open>The calls a request makes\<close>

lemma trace_execute_rejected:
  "\<not> admitted w \<Longrightarrow> trace (snd (execute work w)) = trace w @ [ExecuteEntered, ExecuteLeft]"
  by (simp add: execute_rejected)

lemma trace_execute_admitted:
  "admitted w \<Longrightarrow> trace (snd (execute work w)) = trace (snd (work (entered w))) @ [ExecuteLeft]"
  by (simp add: execute_admitted split: prod.splits sum.splits)

lemma trace_runToolHandler:
  "trace (snd (runToolHandler n h p u)) = trace u @ [ToolHandlerCalled n]"
  by (simp add: runToolHandler_def inStore_def split: prod.splits sum.splits)

lemma trace_runInherited:
  "trace (snd (runInherited reg k p u)) = trace u @ [ToolHandlerCalled k]"
  by (simp add: runInherited_def split: sum.splits)

lemma callTool_trace:
  assumes "state (breaker u) \<noteq> Open"
  shows "trace (snd (callTool reg v u)) = trace u
       \<or> (\<exists>n. trace (snd (callTool reg v u))
                = trace u @ [ExecuteEntered, ToolHandlerCalled n, ExecuteLeft])"
proof (cases "js_field v ''name''")
  case (JStr n)
  have adm: "admitted u" using assms by (rule admitted_not_open)
  have ent: "entered u = traced ExecuteEntered u" using assms by (simp add: entered_def)
  show ?thesis
  proof (cases "js_get (toolHandlers reg) n")
    case Undefined
    with JStr show ?thesis by (simp add: callTool_def Let_def)
  next
    case (Own h)
    with JStr show ?thesis
      by (simp add: callTool_def Let_def trace_execute_admitted [OF adm] trace_runToolHandler ent)
  next
    case (Inherited k)
    with JStr show ?thesis
      by (simp add: callTool_def Let_def trace_execute_admitted [OF adm] trace_runInherited ent)
  qed
qed (simp_all add: callTool_def Let_def)

lemma trace_handleRequest:
  "trace (snd (handleRequest method params handler w)) =
     (case validateAndSanitizeParams method params (store w) of
        (Inl e, s1) \<Rightarrow> trace w
      | (Inr v, s1) \<Rightarrow> trace (snd (execute (handler v) (w\<lparr>store := s1\<rparr>))))"
  by (simp add: handleRequest_def inStore_def split: prod.splits sum.splits)

lemma callToolRequest_trace:
  "trace (snd (callToolRequest reg params w)) = trace w
   \<or> trace (snd (callToolRequest reg params w)) = trace w @ [ExecuteEntered, ExecuteLeft]
   \<or> (\<exists>n. trace (snd (callToolRequest reg params w)) =
            trace w @ [ExecuteEntered, ExecuteEntered, ToolHandlerCalled n, ExecuteLeft, ExecuteLeft])"
proof -
  obtain r s1 where val: "validateAndSanitizeParams ''call_tool'' params (store w) = (r, s1)"
    by (cases "validateAndSanitizeParams ''call_tool'' params (store w)")
  show ?thesis
  proof (cases r)
    case (Inl e)
    with val show ?thesis by (simp add: callToolRequest_def trace_handleRequest)
  next
    case (Inr v)
    let ?w1 = "w\<lparr>store := s1\<rparr>"
    have tr: "trace (snd (callToolRequest reg params w)) = trace (snd (execute (callTool reg v) ?w1))"
      using val Inr by (simp add: callToolRequest_def trace_handleRequest)
    show ?thesis
    proof (cases "admitted ?w1")
      case False
      then show ?thesis using tr by (simp add: trace_execute_rejected)
    next
      case True
      have "state (breaker (entered ?w1)) \<noteq> Open" by simp
      from callTool_trace [OF this, of reg v] True tr show ?thesis
        by (auto simp: trace_execute_admitted)
    qed
  qed
qed

subsection \<open>Requests on a closed breaker\<close>

lemma validate_call_tool:
  assumes "n \<noteq> []" and "length n \<le> 1000"
  shows "validateAndSanitizeParams ''call_tool'' (toolCall n a) s = (Inr (toolCall n a), s)"
  using assms
  by (simp add: validateAndSanitizeParams_def js_get_def methodSchemas_def toolCall_def
      orEmptyObject_def memberIssues_def stringSchema_def stripUnknown_def)

lemma validate_call_tool_empty_name:
  "validateAndSanitizeParams ''call_tool'' (toolCall [] a) s =
     (Inl (Error ''Validation failed for call_tool: name: String must contain at least 1 character(s)''), s)"
  by (simp add: validateAndSanitizeParams_def js_get_def methodSchemas_def toolCall_def
      orEmptyObject_def memberIssues_def stringSchema_def validationMessage_def issueText_def
      showNat.simps digitChar_def)

lemma callTool_own:
  assumes "n \<noteq> []" and "map_of (toolHandlers reg) n = Some h"
  shows "callTool reg (toolCall n a) u = execute (runToolHandler n h a) u"
  using assms by (simp add: callTool_def toolCall_def js_get_def Let_def)

lemma callToolRequest_closed:
  assumes "state (breaker w) = Closed" and "n \<noteq> []" and "length n \<le> 1000"
    and "map_of (toolHandlers reg) n = Some h"
  shows "fst (callToolRequest reg (toolCall n a) w) =
           (case fst (h (orEmptyObject a) (store w)) of Inr p \<Rightarrow> Inr (Payload p) | Inl e \<Rightarrow> Inl e)"
proof -
  have w1: "w\<lparr>store := store w\<rparr> = w" by simp
  have adm: "admitted w" using assms(1) by (simp add: admitted_def)
  have ent: "entered w = traced ExecuteEntered w" using assms(1) by (simp add: entered_def)
  have adm2: "admitted (traced ExecuteEntered w)" using assms(1) by (simp add: admitted_def)
  have ent2: "entered (traced ExecuteEntered w) = traced ExecuteEntered (traced ExecuteEntered w)"
    using assms(1) by (simp add: entered_def)
  have inner: "fst (execute (runToolHandler n h a) (traced ExecuteEntered w)) =
           (case fst (h (orEmptyObject a) (store w)) of Inr p \<Rightarrow> Inr (Payload p) | Inl e \<Rightarrow> Inl e)"
    by (simp add: execute_admitted [OF adm2] ent2 runToolHandler_def inStore_def
        split: prod.splits sum.splits)
  have "fst (callToolRequest reg (toolCall n a) w) = fst (execute (callTool reg (toolCall n a)) w)"
    by (simp add: callToolRequest_def handleRequest_def inStore_def
        validate_call_tool [OF assms(2,3)] w1 split: prod.splits sum.splits)
  also have "\<dots> = fst (callTool reg (toolCall n a) (traced ExecuteEntered w))"
    by (simp add: execute_admitted [OF adm] ent split: prod.splits sum.splits)
  also have "\<dots> = fst (execute (runToolHandler n h a) (traced ExecuteEntered w))"
    by (simp add: callTool_own [OF assms(2,4)])
  finally show ?thesis using inner by simp
qed

lemma breaker_startWorld [simp]: "state (breaker (startWorld n t t0)) = Closed"
  by (simp add: startWorld_def newBreaker_def)

lemma toolHandlers_get_component:
  "map_of (toolHandlers reg) ''get_react_flow_component'' = Some handleGetComponent"
  by (simp add: toolHandlers_def)

lemma toolHandlers_list_components:
  "map_of (toolHandlers reg) ''list_react_flow_components'' = Some handleListComponents"
  by (simp add: toolHandlers_def)

lemma get_component_dispatched:
  "fst (callToolRequest reg
          (toolCall ''get_react_flow_component'' (JObj [(''componentName'', JStr n)]))
          (startWorld N T t0))
     = Inr (Payload (getComponentInfo n))"
proof -
  have "cache (store (startWorld N T t0)) = Map.empty" by (simp add: startWorld_def)
  then have "fst (handleGetComponent (JObj [(''componentName'', JStr n)]) (store (startWorld N T t0)))
             = Inr (getComponentInfo n)"
    by (rule handleGetComponent_fresh)
  then show ?thesis
    by (simp add: callToolRequest_closed [OF _ _ _ toolHandlers_get_component] orEmptyObject_def)
qed

lemma callToolRequest_closed_trace:
  assumes "state (breaker w) = Closed" and "n \<noteq> []" and "length n \<le> 1000"
    and "map_of (toolHandlers reg) n = Some h"
  shows "trace (snd (callToolRequest reg (toolCall n a) w)) =
           trace w @ [ExecuteEntered, ExecuteEntered, ToolHandlerCalled n, ExecuteLeft, ExecuteLeft]"
proof -
  have w1: "w\<lparr>store := store w\<rparr> = w" by simp
  have adm: "admitted w" using assms(1) by (simp add: admitted_def)
  have ent: "entered w = traced ExecuteEntered w" using assms(1) by (simp add: entered_def)
  have adm2: "admitted (traced ExecuteEntered w)" using assms(1) by (simp add: admitted_def)
  have ent2: "entered (traced ExecuteEntered w) = traced ExecuteEntered (traced ExecuteEntered w)"
    using assms(1) by (simp add: entered_def)
  have "trace (snd (callToolRequest reg (toolCall n a) w))
          = trace (snd (execute (callTool reg (toolCall n a)) w))"
    by (simp add: callToolRequest_def trace_handleRequest validate_call_tool [OF assms(2,3)] w1)
  also have "\<dots> = trace (snd (callTool reg (toolCall n a) (traced ExecuteEntered w))) @ [ExecuteLeft]"
    by (simp add: trace_execute_admitted [OF adm] ent)
  also have "\<dots> = trace (snd (execute (runToolHandler n h a) (traced ExecuteEntered w))) @ [ExecuteLeft]"
    by (simp add: callTool_own [OF assms(2,4)])
  also have "\<dots> = trace w @ [ExecuteEntered, ExecuteEntered, ToolHandlerCalled n, ExecuteLeft, ExecuteLeft]"
    by (simp add: trace_execute_admitted [OF adm2] ent2 trace_runToolHandler)
  finally show ?thesis .
qed

lemma list_components_constructor_dispatched:
  "fst (callToolRequest reg
          (toolCall ''list_react_flow_components'' (JObj [(''category'', JStr ''constructor'')]))
          (startWorld N T t0))
     = Inl (TypeError ''comps.forEach is not a function'')"
  by (simp add: callToolRequest_closed [OF _ _ _ toolHandlers_list_components] orEmptyObject_def
      handleListComponents_constructor)

section \<open>The claims on the dispatcher\<close>

text \<open>
  Claim C3. \<open>handleRequest\<close> validates first. If validation throws, the result is that
  error and the state is the state before the request with one error entry added: the
  breaker and the trace are untouched, whatever the handler is, so neither \<open>execute\<close> nor
  the handler ran. If validation succeeds, the outcome is the outcome of \<open>execute\<close> on the
  handler, unchanged. For a handler that writes no error entries itself, a request that
  fails adds exactly one error entry, \<open>Error in <method>\<close> with the error that is thrown to
  the caller, and a request that succeeds adds none.
\<close>

theorem handleRequest_pipeline:
  "(validateAndSanitizeParams method params (store w) = (Inl e, s1) \<longrightarrow>
      handleRequest method params handler w
        = (Inl e, w\<lparr>store := logError (''Error in '' @ method) e (store w)\<rparr>))
   \<and> (validateAndSanitizeParams method params (store w) = (Inr v, s1) \<longrightarrow>
      fst (handleRequest method params handler w) = fst (execute (handler v) (w\<lparr>store := s1\<rparr>)))
   \<and> (quietHandler handler \<longrightarrow>
      errorLogs (snd (handleRequest method params handler w)) =
        (case fst (handleRequest method params handler w) of
           Inl e' \<Rightarrow> errorLogs w @ [LogError (''Error in '' @ method) e']
         | Inr r \<Rightarrow> errorLogs w))"
proof (intro conjI impI)
  assume val: "validateAndSanitizeParams method params (store w) = (Inl e, s1)"
  then have "s1 = store w" by (rule validate_error_keeps_store)
  with val show "handleRequest method params handler w
        = (Inl e, w\<lparr>store := logError (''Error in '' @ method) e (store w)\<rparr>)"
    by (simp add: handleRequest_def inStore_def)
next
  assume val: "validateAndSanitizeParams method params (store w) = (Inr v, s1)"
  then show "fst (handleRequest method params handler w) = fst (execute (handler v) (w\<lparr>store := s1\<rparr>))"
    by (simp add: handleRequest_def inStore_def split: prod.splits sum.splits)
next
  assume quiet: "quietHandler handler"
  obtain r s1 where val: "validateAndSanitizeParams method params (store w) = (r, s1)"
    by (cases "validateAndSanitizeParams method params (store w)")
  show "errorLogs (snd (handleRequest method params handler w)) =
        (case fst (handleRequest method params handler w) of
           Inl e' \<Rightarrow> errorLogs w @ [LogError (''Error in '' @ method) e']
         | Inr r \<Rightarrow> errorLogs w)"
  proof (cases r)
    case (Inl e)
    with val have "s1 = store w" using validate_error_keeps_store by blast
    with val Inl show ?thesis
      by (simp add: handleRequest_def inStore_def)
  next
    case (Inr v)
    let ?w1 = "w\<lparr>store := s1\<rparr>"
    have e1: "errorLogs ?w1 = errorLogs w"
      using validate_no_error_entries [of "method" "params" "store w"] val by (simp add: errorLogs_def)
    have e2: "errorLogs (snd (execute (handler v) ?w1)) = errorLogs ?w1"
      using quiet by (intro errorLogs_execute) (simp add: quietHandler_def)
    obtain r2 w2 where ex: "execute (handler v) ?w1 = (r2, w2)" by (cases "execute (handler v) ?w1")
    with e1 e2 have "errorLogs w2 = errorLogs w" by simp
    with val Inr ex show ?thesis
      by (cases r2) (simp_all add: handleRequest_def inStore_def)
  qed
qed


theorem handleRequest_pipeline_witness:
  "validateAndSanitizeParams ''call_tool'' (toolCall [] (JObj [])) (store (startWorld 5 60000 0))
     = (Inl (Error ''Validation failed for call_tool: name: String must contain at least 1 character(s)''),
        store (startWorld 5 60000 0))
   \<and> handleRequest ''call_tool'' (toolCall [] (JObj [])) (callTool exampleRegistry) (startWorld 5 60000 0)
     = (Inl (Error ''Validation failed for call_tool: name: String must contain at least 1 character(s)''),
        (startWorld 5 60000 0)\<lparr>store := logError ''Error in call_tool''
           (Error ''Validation failed for call_tool: name: String must contain at least 1 character(s)'')
           (store (startWorld 5 60000 0))\<rparr>)
   \<and> validateAndSanitizeParams ''call_tool''
        (toolCall ''list_react_flow_components'' (JObj [(''category'', JStr ''constructor'')]))
        (store (startWorld 5 60000 0))
     = (Inr (toolCall ''list_react_flow_components'' (JObj [(''category'', JStr ''constructor'')])),
        store (startWorld 5 60000 0))
   \<and> fst (handleRequest ''call_tool''
        (toolCall ''list_react_flow_components'' (JObj [(''category'', JStr ''constructor'')]))
        (callTool exampleRegistry) (startWorld 5 60000 0))
     = Inl (TypeError ''comps.forEach is not a function'')
   \<and> quietHandler (callTool exampleRegistry)
   \<and> errorLogs (snd (handleRequest ''call_tool''
        (toolCall ''list_react_flow_components'' (JObj [(''category'', JStr ''constructor'')]))
        (callTool exampleRegistry) (startWorld 5 60000 0)))
     = [LogError ''Error in call_tool'' (TypeError ''comps.forEach is not a function'')]"
proof -
  let ?W = "startWorld 5 60000 0"
  let ?E = "Error ''Validation failed for call_tool: name: String must contain at least 1 character(s)''"
  let ?P = "toolCall ''list_react_flow_components'' (JObj [(''category'', JStr ''constructor'')])"
  have v1: "validateAndSanitizeParams ''call_tool'' (toolCall [] (JObj [])) (store ?W) = (Inl ?E, store ?W)"
    by (rule validate_call_tool_empty_name)
  have v2: "validateAndSanitizeParams ''call_tool'' ?P (store ?W) = (Inr ?P, store ?W)"
    by (rule validate_call_tool) simp_all
  have quiet: "quietHandler (callTool exampleRegistry)"
    using quiet_exampleRegistry by (rule quiet_callTool)
  have r1: "handleRequest ''call_tool'' (toolCall [] (JObj [])) (callTool exampleRegistry) ?W
              = (Inl ?E, ?W\<lparr>store := logError ''Error in call_tool'' ?E (store ?W)\<rparr>)"
    using handleRequest_pipeline [of "''call_tool''" "toolCall [] (JObj [])" ?W ?E "store ?W"
        "callTool exampleRegistry"] v1
    by simp
  have f2: "fst (handleRequest ''call_tool'' ?P (callTool exampleRegistry) ?W)
              = Inl (TypeError ''comps.forEach is not a function'')"
    using list_components_constructor_dispatched [of exampleRegistry 5 60000 0]
    by (simp add: callToolRequest_def)
  have "errorLogs ?W = []"
    by (simp add: errorLogs_def startWorld_def)
  then have r2: "errorLogs (snd (handleRequest ''call_tool'' ?P (callTool exampleRegistry) ?W))
              = [LogError ''Error in call_tool'' (TypeError ''comps.forEach is not a function'')]"
    using handleRequest_pipeline [of "''call_tool''" ?P ?W ?E "store ?W"
        "callTool exampleRegistry" ?P] quiet f2
    by simp
  from v1 r1 v2 f2 quiet r2 show ?thesis by blast
qed

text \<open>
  Claim C10. A \<open>call_tool\<close> request adds to the trace nothing, or one entry into and exit
  from \<open>execute\<close>, or two entries into \<open>execute\<close>, the call of a tool handler, and two
  exits. So whenever the request reaches a tool handler, \<open>execute\<close> of the one shared
  breaker was entered twice before the handler ran and left twice after it: the second
  entry is made by the closure that the first one runs.
\<close>

theorem call_tool_enters_breaker_twice:
  assumes "ToolHandlerCalled n \<in> set (newCalls w (snd (callToolRequest reg params w)))"
  shows "trace (snd (callToolRequest reg params w)) =
           trace w @ [ExecuteEntered, ExecuteEntered, ToolHandlerCalled n, ExecuteLeft, ExecuteLeft]"
  using assms callToolRequest_trace [of reg params w]
  by (auto simp: newCalls_def)


theorem call_tool_enters_breaker_twice_witness:
  "ToolHandlerCalled ''get_react_flow_component''
     \<in> set (newCalls (startWorld 5 60000 0)
          (snd (callToolRequest exampleRegistry
             (toolCall ''get_react_flow_component'' (JObj [(''componentName'', JStr ''Handle'')]))
             (startWorld 5 60000 0))))
   \<and> trace (snd (callToolRequest exampleRegistry
             (toolCall ''get_react_flow_component'' (JObj [(''componentName'', JStr ''Handle'')]))
             (startWorld 5 60000 0)))
     = [ExecuteEntered, ExecuteEntered, ToolHandlerCalled ''get_react_flow_component'',
        ExecuteLeft, ExecuteLeft]"
proof -
  let ?W = "startWorld 5 60000 0"
  let ?P = "toolCall ''get_react_flow_component'' (JObj [(''componentName'', JStr ''Handle'')])"
  have empty: "trace ?W = []"
    by (simp add: startWorld_def)
  have "trace (snd (callToolRequest exampleRegistry ?P ?W)) =
          trace ?W @ [ExecuteEntered, ExecuteEntered, ToolHandlerCalled ''get_react_flow_component'',
                      ExecuteLeft, ExecuteLeft]"
    by (rule callToolRequest_closed_trace [OF _ _ _ toolHandlers_get_component]) simp_all
  then have reached: "ToolHandlerCalled ''get_react_flow_component''
      \<in> set (newCalls ?W (snd (callToolRequest exampleRegistry ?P ?W)))"
    by (simp add: newCalls_def empty)
  from call_tool_enters_breaker_twice [OF reached] reached empty show ?thesis by simp
qed

lemma failing_tool_call_counts_twice:
  assumes "2 < N"
  shows "breaker (snd (callToolRequest reg
            (toolCall ''list_react_flow_components'' (JObj [(''category'', JStr ''constructor'')]))
            (startWorld N T t0)))
         = (newBreaker N T)\<lparr>consecutiveFailures := 2\<rparr>"
proof -
  let ?W = "startWorld N T t0"
  let ?a = "JObj [(''category'', JStr ''constructor'')]"
  let ?n = "''list_react_flow_components''"
  let ?E = "TypeError ''comps.forEach is not a function''"
  have b0: "breaker ?W = newBreaker N T"
    by (simp add: startWorld_def)
  have w1: "?W\<lparr>store := store ?W\<rparr> = ?W" by simp
  have adm: "admitted ?W" by (simp add: admitted_def)
  have ent: "entered ?W = traced ExecuteEntered ?W" by (simp add: entered_def)
  have adm2: "admitted (traced ExecuteEntered ?W)" by (simp add: admitted_def)
  have ent2: "entered (traced ExecuteEntered ?W) = traced ExecuteEntered (traced ExecuteEntered ?W)"
    by (simp add: entered_def)
  obtain s2 where fails: "handleListComponents (orEmptyObject ?a) (store ?W) = (Inl ?E, s2)"
    using handleListComponents_constructor [of N T t0]
    by (cases "handleListComponents (orEmptyObject ?a) (store ?W)") (simp add: orEmptyObject_def)
  define u where "u = (traced (ToolHandlerCalled ?n) (traced ExecuteEntered (traced ExecuteEntered ?W)))\<lparr>store := s2\<rparr>"
  have bu: "breaker u = newBreaker N T"
    by (simp add: u_def b0)
  have inner: "execute (runToolHandler ?n handleListComponents ?a) (traced ExecuteEntered ?W)
               = (Inl ?E, traced ExecuteLeft (onFailure u))"
    by (simp add: execute_admitted [OF adm2] ent2 runToolHandler_def inStore_def fails u_def)
  have b1: "breaker (onFailure u) = (newBreaker N T)\<lparr>consecutiveFailures := 1\<rparr>"
    using assms by (simp add: onFailure_def bu newBreaker_def)
  have call: "callTool reg (toolCall ?n ?a) (traced ExecuteEntered ?W)
               = execute (runToolHandler ?n handleListComponents ?a) (traced ExecuteEntered ?W)"
    by (rule callTool_own [OF _ toolHandlers_list_components]) simp
  have outer: "execute (callTool reg (toolCall ?n ?a)) ?W
               = (Inl ?E, traced ExecuteLeft (onFailure (traced ExecuteLeft (onFailure u))))"
    by (simp add: execute_admitted [OF adm] ent call inner)
  have b2: "breaker (onFailure (traced ExecuteLeft (onFailure u)))
              = (newBreaker N T)\<lparr>consecutiveFailures := 2\<rparr>"
    using assms by (simp add: onFailure_def [of "traced ExecuteLeft (onFailure u)"] b1 newBreaker_def)
  have "breaker (snd (callToolRequest reg (toolCall ?n ?a) ?W))
          = breaker (snd (execute (callTool reg (toolCall ?n ?a)) ?W))"
    by (simp add: callToolRequest_def handleRequest_def inStore_def validate_call_tool w1
        split: prod.splits sum.splits)
  with outer b2 show ?thesis by simp
qed

text \<open>
  Claim C1, at a tool call of \<open>get_react_flow_component\<close> with the empty string as
  \<open>componentName\<close>, on the process as started. The dispatcher validates the request under
  the method \<open>call_tool\<close>, whose schema accepts any \<open>arguments\<close>; the request is not
  rejected, the handler is called, and the caller gets the successful payload that says
  the component was not found. The rule of \<open>get_react_flow_component\<close> in the same table
  does reject the empty name, but no request is validated against it. With
  \<open>componentName = "Handle"\<close> the handler is reached and returns the rendering of the
  component.
\<close>

theorem get_component_empty_name_reaches_handler:
  "fst (callToolRequest reg
          (toolCall ''get_react_flow_component'' (JObj [(''componentName'', JStr [])]))
          (startWorld N T t0))
     = Inr (Payload (Content (''Component '' @ dq @ dq @ '' not found. Available components: '' @
         ''<ReactFlow />, <ReactFlowProvider />, <Background />, <Controls />, <MiniMap />, '' @
         ''<Panel />, <Handle />, <BaseEdge />, <EdgeLabelRenderer />, <NodeResizer />, '' @
         ''<NodeToolbar />, <ViewportPortal />, <ControlButton />'')))
   \<and> trace (snd (callToolRequest reg
          (toolCall ''get_react_flow_component'' (JObj [(''componentName'', JStr [])]))
          (startWorld N T t0)))
     = [ExecuteEntered, ExecuteEntered, ToolHandlerCalled ''get_react_flow_component'',
        ExecuteLeft, ExecuteLeft]
   \<and> fst (validateAndSanitizeParams ''get_react_flow_component''
          (JObj [(''componentName'', JStr [])]) s)
     = Inl (Error (''Validation failed for get_react_flow_component: '' @
                   ''componentName: String must contain at least 1 character(s)''))
   \<and> fst (callToolRequest reg
          (toolCall ''get_react_flow_component'' (JObj [(''componentName'', JStr ''Handle'')]))
          (startWorld N T t0))
     = Inr (Payload (Content (renderComponent component_handle)))"
proof -
  let ?W = "startWorld N T t0"
  let ?P = "toolCall ''get_react_flow_component'' (JObj [(''componentName'', JStr [])])"
  have a: "fst (callToolRequest reg ?P ?W) = Inr (Payload (getComponentInfo []))"
    by (rule get_component_dispatched)
  have "trace ?W = []"
    by (simp add: startWorld_def)
  moreover have "trace (snd (callToolRequest reg ?P ?W)) =
          trace ?W @ [ExecuteEntered, ExecuteEntered, ToolHandlerCalled ''get_react_flow_component'',
                      ExecuteLeft, ExecuteLeft]"
    by (rule callToolRequest_closed_trace [OF _ _ _ toolHandlers_get_component]) simp_all
  ultimately have b: "trace (snd (callToolRequest reg ?P ?W)) =
          [ExecuteEntered, ExecuteEntered, ToolHandlerCalled ''get_react_flow_component'',
           ExecuteLeft, ExecuteLeft]"
    by simp
  have c: "fst (validateAndSanitizeParams ''get_react_flow_component''
          (JObj [(''componentName'', JStr [])]) s)
     = Inl (Error (''Validation failed for get_react_flow_component: '' @
                   ''componentName: String must contain at least 1 character(s)''))"
    by (simp add: validateAndSanitizeParams_def js_get_def methodSchemas_def
        orEmptyObject_def memberIssues_def stringSchema_def validationMessage_def issueText_def
        showNat.simps digitChar_def)
  have d: "fst (callToolRequest reg
          (toolCall ''get_react_flow_component'' (JObj [(''componentName'', JStr ''Handle'')])) ?W)
     = Inr (Payload (Content (renderComponent component_handle)))"
    by (simp add: get_component_dispatched getComponentInfo_handle)
  from a b c d show ?thesis
    by (simp only: getComponentInfo_empty_name)
qed

text \<open>
  Claim C2, at lookups of names that are in no table. The category \<open>constructor\<close> is not
  a category of the component list, yet \<open>components[normalizedCategory]\<close> finds the member
  inherited from \<open>Object.prototype\<close> and takes it for the category's array:
  \<open>getComponentsList\<close> raises a \<open>TypeError\<close>, \<open>handleListComponents\<close> and the dispatched tool
  call fail with it, and no list of the valid categories is returned. In the same way
  \<open>getComponentInfo\<close> renders the inherited member for the name \<open>constructor\<close> instead of
  listing the available components.
\<close>

theorem unknown_category_raises:
  "map_of componentCategories ''constructor'' = None
   \<and> getComponentsList (JStr ''constructor'') = Inl (TypeError ''comps.forEach is not a function'')
   \<and> fst (handleListComponents (JObj [(''category'', JStr ''constructor'')])
            (store (startWorld N T t0)))
       = Inl (TypeError ''comps.forEach is not a function'')
   \<and> fst (callToolRequest reg
            (toolCall ''list_react_flow_components'' (JObj [(''category'', JStr ''constructor'')]))
            (startWorld N T t0))
       = Inl (TypeError ''comps.forEach is not a function'')
   \<and> map_of components ''constructor'' = None
   \<and> getComponentInfo ''constructor'' =
       Content ''# Object\<newline>\<newline>**Type:** undefined\<newline>\<newline>**Description:** undefined\<newline>\<newline>''"
proof -
  have "map_of componentCategories ''constructor'' = None"
    by (simp add: componentCategories_def)
  moreover have "map_of components ''constructor'' = None"
    by (simp add: components_def)
  ultimately show ?thesis
    using getComponentsList_constructor handleListComponents_constructor [of N T t0]
      list_components_constructor_dispatched [of reg N T t0] getComponentInfo_constructor
    by simp
qed

end
